theory Spec2Isabelle
  imports Complex_Main
begin

section \<open>Drought prediction pipeline: the prediction service\<close>

text \<open>
  The development embeds \<^verbatim>\<open>backend/app/services/ml_service.py\<close> (class
  \<^verbatim>\<open>DroughtMLService\<close>) and the two request handlers of
  \<^verbatim>\<open>backend/app/main.py\<close> that call it. Python floats are read as real numbers:
  comparison, subtraction and absolute value are then exact, and no NaN or infinity
  exists. Python exceptions are values of the type \<open>pyerror\<close>; a method that can raise
  returns \<open>pyerror + 'a\<close>, with \<open>Inl\<close> for the raised exception. Console output
  (\<^verbatim>\<open>print\<close>) is not modelled.
\<close>

subsection \<open>Exceptions\<close>

datatype pyerror =
    ValueError string
  | KeyError "string list"
  | TypeError
  | AttributeError
  | IndexError
  | ModelFailure string
  | ValidationError
  | HTTPException int detail
and detail =
    Expected12Months int
  | MissingColumns "string set"
  | StrOf pyerror

subsection \<open>Service state\<close>

text \<open>
  \<^verbatim>\<open>feature_config.json\<close> is read by \<^verbatim>\<open>load_model\<close>; the code uses its list
  \<^verbatim>\<open>"features"\<close> (each entry has a \<^verbatim>\<open>"name"\<close>) and its dictionary
  \<^verbatim>\<open>"drought_categories"\<close> (each entry has a \<^verbatim>\<open>"label"\<close>).
\<close>

record feature_entry =
  name :: string

record category_entry =
  label :: string

record feature_config =
  features :: "feature_entry list"
  drought_categories :: "string \<rightharpoonup> category_entry"

text \<open>
  Modelled from the spec: the fitted scaler objects \<^verbatim>\<open>scaler_X.pkl\<close> and
  \<^verbatim>\<open>scaler_y.pkl\<close> are artifacts missing from the sources. Section 4.2 of the
  specification describes them as affine transforms with a learned mean and a learned
  scale per column; \<^verbatim>\<open>check_scaler.py\<close> reads the attributes \<^verbatim>\<open>mean_\<close> and
  \<^verbatim>\<open>scale_\<close>. A scaler is the list of its per-column means and scales.
\<close>

record scaler =
  sc_mean :: "real list"
  sc_scale :: "real list"

text \<open>
  The trained network is opaque: a function from a rank-3 tensor to a rank-2 array,
  which may raise.
\<close>

type_synonym tensor3 = "real list list list"
type_synonym keras_model = "tensor3 \<Rightarrow> pyerror + real list list"

record service =
  model :: "keras_model option"
  scaler_X :: "scaler option"
  scaler_y :: "scaler option"
  feature_config :: "feature_config option"
  model_path :: string

definition init_service :: service where
  "init_service =
     \<lparr>model = None, scaler_X = None, scaler_y = None, feature_config = None,
      model_path = ''ml_models/''\<rparr>"

subsection \<open>Severity classification and confidence\<close>

record category =
  level :: string
  cat_label :: string
  description :: string

definition get_severity_description :: "string \<Rightarrow> string" where
  "get_severity_description lv =
     (if lv = ''no_drought'' then ''Normal conditions with adequate water availability''
      else if lv = ''mild'' then ''Slight water deficit, minimal impact on agriculture''
      else if lv = ''moderate'' then ''Noticeable water shortage, crop stress beginning''
      else if lv = ''severe'' then ''Significant water scarcity, major agricultural impact''
      else if lv = ''extreme'' then ''Critical water shortage, widespread agricultural failure''
      else ''Unknown severity'')"

definition drought_level :: "real \<Rightarrow> string" where
  "drought_level regcdi =
     (if regcdi \<ge> 0.5 then ''no_drought''
      else if regcdi \<ge> 0.0 then ''mild''
      else if regcdi \<ge> -0.5 then ''moderate''
      else if regcdi \<ge> -1.0 then ''severe''
      else ''extreme'')"

definition categorize_drought :: "service \<Rightarrow> real \<Rightarrow> pyerror + category" where
  "categorize_drought self regcdi =
     (case feature_config self of
        None \<Rightarrow> Inl TypeError
      | Some cfg \<Rightarrow>
          (let categories = drought_categories cfg;
               lv = drought_level regcdi
           in case categories lv of
                None \<Rightarrow> Inl (KeyError [lv])
              | Some c \<Rightarrow>
                  Inr \<lparr>level = lv, cat_label = label c,
                       description = get_severity_description lv\<rparr>))"

definition boundaries :: "real list" where
  "boundaries = [-1.0, -0.5, 0.0, 0.5]"

definition min_list_py :: "real list \<Rightarrow> real" where
  "min_list_py xs = foldl min (hd xs) (tl xs)"

definition calculate_confidence :: "real \<Rightarrow> real" where
  "calculate_confidence regcdi =
     (let distances = map (\<lambda>b. \<bar>regcdi - b\<bar>) boundaries;
          min_distance = min_list_py distances;
          confidence = 0.5 + (min_distance * 0.25)
      in min confidence 1.0)"

text \<open>
  Modelled from the spec: the contents of \<^verbatim>\<open>feature_config.json\<close> are not in the
  sources; the table of section 4.4 gives the label of each level.
\<close>

definition spec_categories :: "string \<rightharpoonup> category_entry" where
  "spec_categories =
     [''no_drought'' \<mapsto> \<lparr>label = ''No Drought''\<rparr>,
      ''mild'' \<mapsto> \<lparr>label = ''Mild Drought''\<rparr>,
      ''moderate'' \<mapsto> \<lparr>label = ''Moderate Drought''\<rparr>,
      ''severe'' \<mapsto> \<lparr>label = ''Severe Drought''\<rparr>,
      ''extreme'' \<mapsto> \<lparr>label = ''Extreme Drought''\<rparr>]"

subsection \<open>Tables and arrays\<close>

text \<open>
  A pandas \<^verbatim>\<open>DataFrame\<close> is its list of column names and its rows, each row holding
  one value per column. A frame is well formed when every row has as many values as
  there are columns.
\<close>

record dataframe =
  columns :: "string list"
  rows :: "real list list"

definition wf_frame :: "dataframe \<Rightarrow> bool" where
  "wf_frame df = list_all (\<lambda>r. length r = length (columns df)) (rows df)"

text \<open>
  \<^verbatim>\<open>df[names]\<close>: the columns called \<open>names\<close>, in the order of \<open>names\<close> (every
  column of that name, should a name label several); a name that is no column raises
  \<^verbatim>\<open>KeyError\<close> with the names not found.
\<close>

definition select_cells :: "string list \<Rightarrow> string \<Rightarrow> 'a list \<Rightarrow> 'a list" where
  "select_cells cs n r = map snd (filter (\<lambda>(c, v). c = n) (zip cs r))"

definition getitem_columns :: "dataframe \<Rightarrow> string list \<Rightarrow> pyerror + dataframe" where
  "getitem_columns df names =
     (case filter (\<lambda>n. n \<notin> set (columns df)) names of
        [] \<Rightarrow>
          Inr \<lparr>columns = concat (map (\<lambda>n. select_cells (columns df) n (columns df)) names),
               rows = map (\<lambda>r. concat (map (\<lambda>n. select_cells (columns df) n r) names)) (rows df)\<rparr>
      | missing \<Rightarrow> Inl (KeyError missing))"

text \<open>Python slicing \<^verbatim>\<open>xs[i:j]\<close>, with negative bounds counted from the end.\<close>

definition py_slice :: "'a list \<Rightarrow> int \<Rightarrow> int \<Rightarrow> 'a list" where
  "py_slice xs i j =
     (let n = int (length xs);
          i' = (if i < 0 then max (n + i) 0 else min i n);
          j' = (if j < 0 then max (n + j) 0 else min j n)
      in take (nat (j' - i')) (drop (nat i') xs))"

definition iloc :: "dataframe \<Rightarrow> int \<Rightarrow> int \<Rightarrow> dataframe" where
  "iloc df i j = df\<lparr>rows := py_slice (rows df) i j\<rparr>"

definition py_range :: "int \<Rightarrow> int list" where
  "py_range n = map int [0..<nat n]"

text \<open>\<^verbatim>\<open>data.reshape(-1, 1)\<close>: every cell becomes a row of one column, row by row.\<close>

definition reshape_column :: "real list list \<Rightarrow> real list list" where
  "reshape_column data = map (\<lambda>x. [x]) (concat data)"

fun chunks :: "nat \<Rightarrow> nat \<Rightarrow> 'a list \<Rightarrow> 'a list list" where
  "chunks 0 c xs = []"
| "chunks (Suc r) c xs = take c xs # chunks r c (drop c xs)"

text \<open>\<^verbatim>\<open>a.reshape((r, c))\<close> raises when the array does not have \<open>r * c\<close> cells.\<close>

definition reshape2 :: "nat \<times> nat \<Rightarrow> real list list \<Rightarrow> pyerror + real list list" where
  "reshape2 shape a =
     (case shape of (r, c) \<Rightarrow>
        if length (concat a) = r * c then Inr (chunks r c (concat a))
        else Inl (ValueError ''cannot reshape array''))"

definition expand_dims0 :: "real list list \<Rightarrow> tensor3" where
  "expand_dims0 a = [a]"

subsection \<open>Scaler transforms\<close>

text \<open>
  Modelled from the spec: the transform of a fitted scaler (section 4.2: subtract the
  learned mean, divide by the learned scale; the inverse maps back). As in
  scikit-learn, an array without rows, or with a number of columns other than the
  number the scaler was fitted on, raises \<^verbatim>\<open>ValueError\<close>.
\<close>

definition check_array :: "scaler \<Rightarrow> real list list \<Rightarrow> pyerror option" where
  "check_array sc X =
     (if X = [] then Some (ValueError ''Found array with 0 sample(s)'')
      else if list_ex (\<lambda>r. length r \<noteq> length (sc_mean sc)) X
        then Some (ValueError ''X has a different number of features'')
      else None)"

definition transform :: "scaler \<Rightarrow> real list list \<Rightarrow> pyerror + real list list" where
  "transform sc X =
     (case check_array sc X of
        Some e \<Rightarrow> Inl e
      | None \<Rightarrow> Inr (map (\<lambda>r. map (\<lambda>(x, m, s). (x - m) / s) (zip r (zip (sc_mean sc) (sc_scale sc)))) X))"

definition inverse_transform :: "scaler \<Rightarrow> real list list \<Rightarrow> pyerror + real list list" where
  "inverse_transform sc X =
     (case check_array sc X of
        Some e \<Rightarrow> Inl e
      | None \<Rightarrow> Inr (map (\<lambda>r. map (\<lambda>(x, m, s). x * s + m) (zip r (zip (sc_mean sc) (sc_scale sc)))) X))"

text \<open>\<^verbatim>\<open>a[0][0]\<close> on a rank-2 array.\<close>

definition index00 :: "real list list \<Rightarrow> pyerror + real" where
  "index00 a = (case a of [] \<Rightarrow> Inl IndexError | r # _ \<Rightarrow> (case r of [] \<Rightarrow> Inl IndexError | x # _ \<Rightarrow> Inr x))"

subsection \<open>Preprocessing and prediction\<close>

definition preprocess_data :: "service \<Rightarrow> dataframe \<Rightarrow> pyerror + tensor3" where
  "preprocess_data self df =
     (case feature_config self of
        None \<Rightarrow> Inl TypeError
      | Some cfg \<Rightarrow>
          (let feature_names = map name (features cfg) in
           case getitem_columns df feature_names of
             Inl e \<Rightarrow> Inl e
           | Inr df' \<Rightarrow>
               (let data = rows df';
                    original_shape = (length data, length (columns df'));
                    data_flat = reshape_column data
                in case scaler_X self of
                     None \<Rightarrow> Inl AttributeError
                   | Some sc \<Rightarrow>
                       (case transform sc data_flat of
                          Inl e \<Rightarrow> Inl e
                        | Inr data_scaled \<Rightarrow>
                            (case reshape2 original_shape data_scaled of
                               Inl e \<Rightarrow> Inl e
                             | Inr data_scaled' \<Rightarrow> Inr (expand_dims0 data_scaled'))))))"

record prediction =
  regcdi_value :: real
  drought_category :: string
  severity_level :: string
  confidence_score :: real
  prediction_date :: string
  model_version :: string
  window_start :: "int option"
  window_end :: "int option"

text \<open>
  \<^verbatim>\<open>predict\<close> reads the clock once (\<^verbatim>\<open>datetime.utcnow()\<close>); the reading is the
  argument \<open>now\<close>. The service is threaded through and returned, so that a change of
  the service's fields would show in the result.
\<close>

definition predict :: "service \<Rightarrow> string \<Rightarrow> dataframe \<Rightarrow> (pyerror + prediction) \<times> service" where
  "predict self now df =
     (case model self of
        None \<Rightarrow> (Inl (ValueError ''Model not loaded. Call load_model() first.''), self)
      | Some m \<Rightarrow>
          (case preprocess_data self df of
             Inl e \<Rightarrow> (Inl e, self)
           | Inr X \<Rightarrow>
               (case m X of
                  Inl e \<Rightarrow> (Inl e, self)
                | Inr y_pred_scaled \<Rightarrow>
                    (case scaler_y self of
                       None \<Rightarrow> (Inl AttributeError, self)
                     | Some sy \<Rightarrow>
                         (case inverse_transform sy y_pred_scaled of
                            Inl e \<Rightarrow> (Inl e, self)
                          | Inr y \<Rightarrow>
                              (case index00 y of
                                 Inl e \<Rightarrow> (Inl e, self)
                               | Inr regcdi \<Rightarrow>
                                   (case categorize_drought self regcdi of
                                      Inl e \<Rightarrow> (Inl e, self)
                                    | Inr cat \<Rightarrow>
                                        (Inr \<lparr>regcdi_value = regcdi,
                                              drought_category = cat_label cat,
                                              severity_level = level cat,
                                              confidence_score = calculate_confidence regcdi,
                                              prediction_date = now,
                                              model_version = ''stat-LSTM-v1.0'',
                                              window_start = None,
                                              window_end = None\<rparr>, self))))))))"

text \<open>
  The loop of \<^verbatim>\<open>predict_batch\<close> over \<^verbatim>\<open>range(len(df) - 11)\<close>: a window whose
  prediction raises is skipped. \<open>clock i\<close> is the clock reading during window \<open>i\<close>.
\<close>

fun predict_batch_loop ::
  "(int \<Rightarrow> string) \<Rightarrow> dataframe \<Rightarrow> int list \<Rightarrow> service \<Rightarrow> prediction list
    \<Rightarrow> prediction list \<times> service" where
  "predict_batch_loop clock df [] self predictions = (predictions, self)"
| "predict_batch_loop clock df (i # is) self predictions =
     (let window = iloc df i (i + 12) in
      case predict self (clock i) window of
        (Inr result, self') \<Rightarrow>
          predict_batch_loop clock df is self'
            (predictions @ [result\<lparr>window_start := Some i, window_end := Some (i + 11)\<rparr>])
      | (Inl e, self') \<Rightarrow> predict_batch_loop clock df is self' predictions)"

definition predict_batch ::
  "service \<Rightarrow> (int \<Rightarrow> string) \<Rightarrow> dataframe \<Rightarrow> prediction list \<times> service" where
  "predict_batch self clock df =
     predict_batch_loop clock df (py_range (int (length (rows df)) - 11)) self []"

text \<open>
  The outcome of window \<open>i\<close> of a table, and the list the loop appends for it: the
  tagged result, or nothing when the prediction raises. Both are used to state the
  properties of the batch predictor.
\<close>

definition window_outcome ::
  "service \<Rightarrow> (int \<Rightarrow> string) \<Rightarrow> dataframe \<Rightarrow> int \<Rightarrow> pyerror + prediction" where
  "window_outcome self clock df i = fst (predict self (clock i) (iloc df i (i + 12)))"

definition window_results ::
  "service \<Rightarrow> (int \<Rightarrow> string) \<Rightarrow> dataframe \<Rightarrow> int \<Rightarrow> prediction list" where
  "window_results self clock df i =
     (case window_outcome self clock df i of
        Inr result \<Rightarrow> [result\<lparr>window_start := Some i, window_end := Some (i + 11)\<rparr>]
      | Inl e \<Rightarrow> [])"

subsection \<open>Request validation\<close>

text \<open>
  The Pydantic models of \<^verbatim>\<open>models/prediction_model.py\<close>: \<^verbatim>\<open>MonthlyFeatures\<close>
  bounds \<^verbatim>\<open>ndvi\<close> (\<^verbatim>\<open>ge=0, le=1\<close>) and \<^verbatim>\<open>soil_moisture\<close>
  (\<^verbatim>\<open>ge=0, le=100\<close>); \<^verbatim>\<open>ManualPredictionRequest\<close> wants exactly 12 entries.
\<close>

record monthly_features =
  rainfall_mm :: real
  tmax_c :: real
  tmin_c :: real
  spei :: real
  spi :: real
  ndvi :: real
  soil_moisture :: real

record manual_prediction_request =
  data :: "monthly_features list"
  location :: "string option"

definition validate_monthly_features :: "monthly_features \<Rightarrow> pyerror + monthly_features" where
  "validate_monthly_features m =
     (if 0 \<le> ndvi m \<and> ndvi m \<le> 1 \<and> 0 \<le> soil_moisture m \<and> soil_moisture m \<le> 100
      then Inr m else Inl ValidationError)"

definition validate_manual_prediction_request ::
  "manual_prediction_request \<Rightarrow> pyerror + manual_prediction_request" where
  "validate_manual_prediction_request req =
     (if list_ex (\<lambda>m. isl (validate_monthly_features m)) (data req) then Inl ValidationError
      else if length (data req) \<noteq> 12 then Inl ValidationError
      else Inr req)"

subsection \<open>Request handlers\<close>

text \<open>\<^verbatim>\<open>item.dict()\<close> and \<^verbatim>\<open>pd.DataFrame(data_list)\<close>.\<close>

definition monthly_features_dict :: "monthly_features \<Rightarrow> (string \<times> real) list" where
  "monthly_features_dict m =
     [(''rainfall_mm'', rainfall_mm m), (''tmax_c'', tmax_c m), (''tmin_c'', tmin_c m),
      (''spei'', spei m), (''spi'', spi m), (''ndvi'', ndvi m),
      (''soil_moisture'', soil_moisture m)]"

definition DataFrame_of_dicts :: "(string \<times> real) list list \<Rightarrow> dataframe" where
  "DataFrame_of_dicts data_list =
     \<lparr>columns = (case data_list of [] \<Rightarrow> [] | d # _ \<Rightarrow> map fst d),
      rows = map (map snd) data_list\<rparr>"

text \<open>
  \<^verbatim>\<open>except Exception as e: raise HTTPException(status_code=500, detail=str(e))\<close>, the
  handler around the body of both endpoints.
\<close>

definition except_500 :: "pyerror + 'a \<Rightarrow> pyerror + 'a" where
  "except_500 r = (case r of Inl e \<Rightarrow> Inl (HTTPException 500 (StrOf e)) | Inr v \<Rightarrow> Inr v)"

text \<open>
  The persistence collaborator is outside the pipeline; \<open>save\<close> is the outcome of the
  awaited call: \<open>None\<close> when it returns, \<open>Some e\<close> when it raises \<open>e\<close>.
\<close>

definition predict_manual ::
  "service \<Rightarrow> pyerror option \<Rightarrow> string \<Rightarrow> manual_prediction_request
    \<Rightarrow> (pyerror + prediction) \<times> service" where
  "predict_manual ml_service save now request =
     (let data_list = map monthly_features_dict (data request);
          df = DataFrame_of_dicts data_list
      in if int (length (rows df)) \<noteq> 12
         then (except_500 (Inl (HTTPException 400 (Expected12Months (int (length (rows df)))))),
               ml_service)
         else (case predict ml_service now df of
                 (Inl e, ml_service') \<Rightarrow> (except_500 (Inl e), ml_service')
               | (Inr result, ml_service') \<Rightarrow>
                   (case save of
                      Some e \<Rightarrow> (except_500 (Inl e), ml_service')
                    | None \<Rightarrow> (except_500 (Inr result), ml_service'))))"

definition required_columns :: "string list" where
  "required_columns =
     [''rainfall_mm'', ''tmax_c'', ''tmin_c'', ''spei'', ''spi'', ''ndvi'', ''soil_moisture'']"

record upload_response =
  message :: string
  total_predictions :: int
  predictions :: "prediction list"

text \<open>
  \<^verbatim>\<open>upload_data\<close>, from the parsed table on (\<open>df\<close> is what \<^verbatim>\<open>pd.read_csv\<close>
  returned).
\<close>

definition upload_data ::
  "service \<Rightarrow> pyerror option \<Rightarrow> (int \<Rightarrow> string) \<Rightarrow> dataframe
    \<Rightarrow> (pyerror + upload_response) \<times> service" where
  "upload_data ml_service save clock df =
     (let missing_cols = set required_columns - set (columns df)
      in if missing_cols \<noteq> {}
         then (except_500 (Inl (HTTPException 400 (MissingColumns missing_cols))), ml_service)
         else (case predict_batch ml_service clock df of
                 (preds, ml_service') \<Rightarrow>
                   (case save of
                      Some e \<Rightarrow> (except_500 (Inl e), ml_service')
                    | None \<Rightarrow>
                        (except_500
                           (Inr \<lparr>message = ''Data processed successfully'',
                                 total_predictions = int (length preds),
                                 predictions = preds\<rparr>), ml_service'))))"

subsection \<open>Example artifacts\<close>

text \<open>
  A loaded service used to evaluate the definitions on concrete inputs: the feature
  names in the order of \<^verbatim>\<open>required_columns\<close>, the labels of the table above, scalers
  with one mean and one scale, and a network that answers with the first cell of its
  input whatever the shape.
\<close>

definition example_config :: feature_config where
  "example_config =
     \<lparr>features = map (\<lambda>n. \<lparr>name = n\<rparr>) required_columns,
      drought_categories = spec_categories\<rparr>"

definition example_model :: keras_model where
  "example_model X = Inr [[hd (hd (hd X))]]"

definition example_service :: service where
  "example_service =
     \<lparr>model = Some example_model,
      scaler_X = Some \<lparr>sc_mean = [2], sc_scale = [4]\<rparr>,
      scaler_y = Some \<lparr>sc_mean = [1], sc_scale = [2]\<rparr>,
      feature_config = Some example_config,
      model_path = ''ml_models/''\<rparr>"

definition example_row :: "real list" where
  "example_row = [10, 30, 20, -1, 0, 7.5, -3]"

definition example_frame :: "nat \<Rightarrow> dataframe" where
  "example_frame n = \<lparr>columns = required_columns, rows = replicate n example_row\<rparr>"

text \<open>
  A table with the columns reordered and one more column, and a table without the
  column \<^verbatim>\<open>ndvi\<close>.
\<close>

definition example_shuffled :: dataframe where
  "example_shuffled =
     \<lparr>columns = [''soil_moisture'', ''station'', ''ndvi'', ''spi'', ''spei'', ''tmin_c'',
                  ''tmax_c'', ''rainfall_mm''],
      rows = [[7, 99, 6, 5, 4, 3, 2, 1]]\<rparr>"

definition example_missing :: dataframe where
  "example_missing =
     \<lparr>columns = [''rainfall_mm'', ''tmax_c'', ''tmin_c'', ''spei'', ''spi'', ''soil_moisture''],
      rows = [[1, 2, 3, 4, 5, 7]]\<rparr>"

text \<open>
  A network that raises when the first cell of its input is negative, and a table of
  14 rows whose second row makes the window starting there fail.
\<close>

definition picky_model :: keras_model where
  "picky_model X =
     (if hd (hd (hd X)) < 0 then Inl (ModelFailure ''invalid input'')
      else Inr [[hd (hd (hd X))]])"

definition picky_service :: service where
  "picky_service = example_service\<lparr>model := Some picky_model\<rparr>"

definition bad_row :: "real list" where
  "bad_row = [-10, 30, 20, -1, 0, 0.5, 40]"

definition picky_frame :: dataframe where
  "picky_frame =
     \<lparr>columns = required_columns, rows = [example_row, bad_row] @ replicate 12 example_row\<rparr>"

definition example_clock :: "int \<Rightarrow> string" where
  "example_clock i = ''2025-01-15T10:30:00''"

definition example_month :: monthly_features where
  "example_month =
     \<lparr>rainfall_mm = 10, tmax_c = 30, tmin_c = 20, spei = -1, spi = 0, ndvi = 7.5,
      soil_moisture = -3\<rparr>"

section \<open>Severity classifier\<close>

lemma spec_categories_simps:
  "spec_categories ''no_drought'' = Some \<lparr>label = ''No Drought''\<rparr>"
  "spec_categories ''mild'' = Some \<lparr>label = ''Mild Drought''\<rparr>"
  "spec_categories ''moderate'' = Some \<lparr>label = ''Moderate Drought''\<rparr>"
  "spec_categories ''severe'' = Some \<lparr>label = ''Severe Drought''\<rparr>"
  "spec_categories ''extreme'' = Some \<lparr>label = ''Extreme Drought''\<rparr>"
  by (simp_all add: spec_categories_def)

lemma get_severity_description_simps:
  "get_severity_description ''no_drought'' = ''Normal conditions with adequate water availability''"
  "get_severity_description ''mild'' = ''Slight water deficit, minimal impact on agriculture''"
  "get_severity_description ''moderate'' = ''Noticeable water shortage, crop stress beginning''"
  "get_severity_description ''severe'' = ''Significant water scarcity, major agricultural impact''"
  "get_severity_description ''extreme'' = ''Critical water shortage, widespread agricultural failure''"
  by (simp_all add: get_severity_description_def)

lemma drought_level_cases:
  "d \<ge> 0.5 \<Longrightarrow> drought_level d = ''no_drought''"
  "0.0 \<le> d \<Longrightarrow> d < 0.5 \<Longrightarrow> drought_level d = ''mild''"
  "-0.5 \<le> d \<Longrightarrow> d < 0.0 \<Longrightarrow> drought_level d = ''moderate''"
  "-1.0 \<le> d \<Longrightarrow> d < -0.5 \<Longrightarrow> drought_level d = ''severe''"
  "d < -1.0 \<Longrightarrow> drought_level d = ''extreme''"
  by (simp_all add: drought_level_def)

lemma categorize_drought_spec:
  assumes "feature_config self = Some cfg" and "drought_categories cfg = spec_categories"
    and "spec_categories (drought_level d) = Some c"
  shows "categorize_drought self d =
     Inr \<lparr>level = drought_level d, cat_label = label c,
          description = get_severity_description (drought_level d)\<rparr>"
  using assms by (simp add: categorize_drought_def Let_def)

text \<open>
  Claim C1. With the category labels of the specification's table loaded, the
  classifier returns, for every real index \<open>d\<close>, the level and label of the table:
  \<open>d \<ge> 0.5\<close> is no drought, \<open>0 \<le> d < 0.5\<close> mild, \<open>-0.5 \<le> d < 0\<close> moderate,
  \<open>-1 \<le> d < -0.5\<close> severe and \<open>d < -1\<close> extreme; a boundary value belongs to the
  higher bucket.
\<close>

theorem categorize_drought_table:
  assumes "feature_config self = Some cfg" and "drought_categories cfg = spec_categories"
  shows "(d \<ge> 0.5 \<longrightarrow> categorize_drought self d =
            Inr \<lparr>level = ''no_drought'', cat_label = ''No Drought'',
                 description = ''Normal conditions with adequate water availability''\<rparr>)
       \<and> (0.0 \<le> d \<and> d < 0.5 \<longrightarrow> categorize_drought self d =
            Inr \<lparr>level = ''mild'', cat_label = ''Mild Drought'',
                 description = ''Slight water deficit, minimal impact on agriculture''\<rparr>)
       \<and> (-0.5 \<le> d \<and> d < 0.0 \<longrightarrow> categorize_drought self d =
            Inr \<lparr>level = ''moderate'', cat_label = ''Moderate Drought'',
                 description = ''Noticeable water shortage, crop stress beginning''\<rparr>)
       \<and> (-1.0 \<le> d \<and> d < -0.5 \<longrightarrow> categorize_drought self d =
            Inr \<lparr>level = ''severe'', cat_label = ''Severe Drought'',
                 description = ''Significant water scarcity, major agricultural impact''\<rparr>)
       \<and> (d < -1.0 \<longrightarrow> categorize_drought self d =
            Inr \<lparr>level = ''extreme'', cat_label = ''Extreme Drought'',
                 description = ''Critical water shortage, widespread agricultural failure''\<rparr>)"
proof -
  note c = categorize_drought_spec [OF assms]
  have 1: "d \<ge> 0.5 \<longrightarrow> categorize_drought self d =
            Inr \<lparr>level = ''no_drought'', cat_label = ''No Drought'',
                 description = ''Normal conditions with adequate water availability''\<rparr>"
    using c [of d] by (simp add: drought_level_cases(1) spec_categories_simps(1)
        get_severity_description_simps(1))
  have 2: "0.0 \<le> d \<and> d < 0.5 \<longrightarrow> categorize_drought self d =
            Inr \<lparr>level = ''mild'', cat_label = ''Mild Drought'',
                 description = ''Slight water deficit, minimal impact on agriculture''\<rparr>"
    using c [of d] by (simp add: drought_level_cases(2) spec_categories_simps(2)
        get_severity_description_simps(2))
  have 3: "-0.5 \<le> d \<and> d < 0.0 \<longrightarrow> categorize_drought self d =
            Inr \<lparr>level = ''moderate'', cat_label = ''Moderate Drought'',
                 description = ''Noticeable water shortage, crop stress beginning''\<rparr>"
    using c [of d] by (simp add: drought_level_cases(3) spec_categories_simps(3)
        get_severity_description_simps(3))
  have 4: "-1.0 \<le> d \<and> d < -0.5 \<longrightarrow> categorize_drought self d =
            Inr \<lparr>level = ''severe'', cat_label = ''Severe Drought'',
                 description = ''Significant water scarcity, major agricultural impact''\<rparr>"
    using c [of d] by (simp add: drought_level_cases(4) spec_categories_simps(4)
        get_severity_description_simps(4))
  have 5: "d < -1.0 \<longrightarrow> categorize_drought self d =
            Inr \<lparr>level = ''extreme'', cat_label = ''Extreme Drought'',
                 description = ''Critical water shortage, widespread agricultural failure''\<rparr>"
    using c [of d] by (simp add: drought_level_cases(5) spec_categories_simps(5)
        get_severity_description_simps(5))
  from 1 2 3 4 5 show ?thesis by blast
qed

text \<open>The two boundary values named by the claim, on the example service.\<close>

theorem categorize_drought_table_witness:
  "categorize_drought example_service 0.5 =
      Inr \<lparr>level = ''no_drought'', cat_label = ''No Drought'',
           description = ''Normal conditions with adequate water availability''\<rparr>
   \<and> categorize_drought example_service (-1.0) =
      Inr \<lparr>level = ''severe'', cat_label = ''Severe Drought'',
           description = ''Significant water scarcity, major agricultural impact''\<rparr>"
proof -
  have c: "feature_config example_service = Some example_config"
    by (simp add: example_service_def)
  have d: "drought_categories example_config = spec_categories"
    by (simp add: example_config_def)
  show ?thesis
    using categorize_drought_table [OF c d, of "0.5"] categorize_drought_table [OF c d, of "-1.0"]
    by simp
qed

section \<open>Confidence heuristic\<close>

lemma min_list_py4: "min_list_py [a, b, c, d] = min (min (min a b) c) d"
  by (simp add: min_list_py_def)

lemma calculate_confidence_eq:
  "calculate_confidence x =
     min (0.5 + 0.25 * min (min (min \<bar>x + 1\<bar> \<bar>x + 0.5\<bar>) \<bar>x\<bar>) \<bar>x - 0.5\<bar>) 1"
  by (simp add: calculate_confidence_def boundaries_def min_list_py4 Let_def)

lemma Min_boundary_distances:
  "Min ((\<lambda>b. \<bar>x - b\<bar>) ` {-1.0, -0.5, 0.0, 0.5::real})
     = min (min (min \<bar>x + 1\<bar> \<bar>x + 0.5\<bar>) \<bar>x\<bar>) \<bar>x - 0.5\<bar>"
  by (simp add: min.commute min.left_commute)

text \<open>
  Claim C2. For every real index \<open>x\<close> the confidence is \<open>min 1 (0.5 + 0.25 * d)\<close>,
  where \<open>d\<close> is the least absolute distance from \<open>x\<close> to the boundaries -1, -0.5, 0
  and 0.5; on each boundary it is exactly 0.5, and at -2 it is 0.75.
\<close>

theorem calculate_confidence_formula:
  "calculate_confidence x =
     min 1.0 (0.5 + 0.25 * Min ((\<lambda>b. \<bar>x - b\<bar>) ` {-1.0, -0.5, 0.0, 0.5}))
   \<and> calculate_confidence (-1.0) = 0.5 \<and> calculate_confidence (-0.5) = 0.5
   \<and> calculate_confidence 0.0 = 0.5 \<and> calculate_confidence 0.5 = 0.5
   \<and> calculate_confidence (-2.0) = 0.75"
proof -
  have g: "calculate_confidence x =
     min 1.0 (0.5 + 0.25 * Min ((\<lambda>b. \<bar>x - b\<bar>) ` {-1.0, -0.5, 0.0, 0.5}))"
    unfolding Min_boundary_distances calculate_confidence_eq by (simp add: min.commute)
  have b1: "calculate_confidence (-1.0) = 0.5" by (simp add: calculate_confidence_eq)
  have b2: "calculate_confidence (-0.5) = 0.5" by (simp add: calculate_confidence_eq)
  have b3: "calculate_confidence 0.0 = 0.5" by (simp add: calculate_confidence_eq)
  have b4: "calculate_confidence 0.5 = 0.5" by (simp add: calculate_confidence_eq)
  have b5: "calculate_confidence (-2.0) = 0.75" by (simp add: calculate_confidence_eq)
  from g b1 b2 b3 b4 b5 show ?thesis by blast
qed

text \<open>
  Claim C9. For every real index the confidence lies in the closed interval from 0.5
  to 1: the least distance is not negative and the result is capped at 1.
\<close>

theorem calculate_confidence_range:
  "0.5 \<le> calculate_confidence x \<and> calculate_confidence x \<le> 1.0"
proof -
  have d: "0 \<le> min (min (min \<bar>x + 1\<bar> \<bar>x + 0.5\<bar>) \<bar>x\<bar>) \<bar>x - 0.5\<bar>"
    by simp
  have lo: "0.5 \<le> calculate_confidence x"
    unfolding calculate_confidence_eq using d by simp
  have hi: "calculate_confidence x \<le> 1.0"
    unfolding calculate_confidence_eq by simp
  from lo hi show ?thesis by blast
qed

section \<open>Schema projection and scaling\<close>

lemma predict_state: "snd (predict self now df) = self"
  by (simp add: predict_def split: option.splits sum.splits)

lemma select_cells_distinct:
  "distinct cs \<Longrightarrow> n \<in> set cs \<Longrightarrow> length r = length cs
     \<Longrightarrow> select_cells cs n r = [the (map_of (zip cs r) n)]"
proof (induction cs r rule: list_induct2')
  case (4 c cs x r)
  show ?case
  proof (cases "c = n")
    case True
    with 4 have "n \<notin> set cs" by auto
    then have "filter (\<lambda>(c, v). c = n) (zip cs r) = []"
      by (auto simp: filter_empty_conv dest: set_zip_leftD)
    with True show ?thesis by (simp add: select_cells_def)
  next
    case False
    with 4 show ?thesis by (simp add: select_cells_def)
  qed
qed simp_all

lemma select_cells_names:
  "distinct cs \<Longrightarrow> n \<in> set cs \<Longrightarrow> select_cells cs n cs = [n]"
proof -
  assume d: "distinct cs" and n: "n \<in> set cs"
  have "map_of (zip cs cs) n = Some n"
    using n by (induction cs) auto
  with select_cells_distinct [OF d n, of cs] show ?thesis by simp
qed

lemma concat_map_singleton:
  "\<forall>x \<in> set xs. g x = [f x] \<Longrightarrow> concat (map g xs) = map f xs"
  by (induction xs) simp_all

lemma getitem_columns_ok:
  assumes "distinct (columns df)" and "set names \<subseteq> set (columns df)" and "wf_frame df"
  shows "getitem_columns df names =
     Inr \<lparr>columns = names,
          rows = map (\<lambda>r. map (\<lambda>n. the (map_of (zip (columns df) r) n)) names) (rows df)\<rparr>"
proof -
  have f: "filter (\<lambda>n. n \<notin> set (columns df)) names = []"
    using assms(2) by (auto simp: filter_empty_conv)
  have c: "concat (map (\<lambda>n. select_cells (columns df) n (columns df)) names) = names"
  proof -
    have "\<forall>n \<in> set names. select_cells (columns df) n (columns df) = [n]"
      using assms(1,2) by (auto simp: select_cells_names)
    then show ?thesis using concat_map_singleton [of names _ "\<lambda>n. n"] by simp
  qed
  have r: "map (\<lambda>r. concat (map (\<lambda>n. select_cells (columns df) n r) names)) (rows df)
         = map (\<lambda>r. map (\<lambda>n. the (map_of (zip (columns df) r) n)) names) (rows df)"
  proof (rule map_cong [OF refl])
    fix r assume "r \<in> set (rows df)"
    then have l: "length r = length (columns df)"
      using assms(3) by (simp add: wf_frame_def list_all_iff)
    have "\<forall>n \<in> set names. select_cells (columns df) n r
        = [the (map_of (zip (columns df) r) n)]"
      using assms(1,2) l by (auto simp: select_cells_distinct)
    then show "concat (map (\<lambda>n. select_cells (columns df) n r) names)
        = map (\<lambda>n. the (map_of (zip (columns df) r) n)) names"
      by (rule concat_map_singleton)
  qed
  show ?thesis
    unfolding getitem_columns_def f c r by simp
qed

lemma getitem_columns_missing:
  assumes "\<not> set names \<subseteq> set (columns df)"
  shows "getitem_columns df names = Inl (KeyError (filter (\<lambda>n. n \<notin> set (columns df)) names))"
proof -
  from assms have "filter (\<lambda>n. n \<notin> set (columns df)) names \<noteq> []"
    by (auto simp: filter_empty_conv)
  then show ?thesis
    by (cases "filter (\<lambda>n. n \<notin> set (columns df)) names") (simp_all add: getitem_columns_def)
qed

lemma transform_column:
  assumes "sc_mean sc = [m]" and "sc_scale sc = [s]" and "xs \<noteq> []"
  shows "transform sc (map (\<lambda>x. [x]) xs) = Inr (map (\<lambda>x. [(x - m) / s]) xs)"
proof -
  have "check_array sc (map (\<lambda>x. [x]) xs) = None"
    using assms by (simp add: check_array_def list_ex_iff)
  then show ?thesis using assms by (simp add: transform_def)
qed

lemma chunks_concat:
  "length xss = r \<Longrightarrow> \<forall>xs \<in> set xss. length xs = c \<Longrightarrow> chunks r c (concat xss) = xss"
  by (induction xss arbitrary: r) auto

lemma length_concat_uniform:
  "\<forall>xs \<in> set xss. length xs = c \<Longrightarrow> length (concat xss) = length xss * c"
  by (induction xss) simp_all

lemma concat_map_cell: "concat (map (\<lambda>x. [f x]) xs) = map f xs"
  by (induction xs) simp_all

lemma reshape2_scaled:
  assumes "\<forall>r \<in> set rws. length r = c"
  shows "reshape2 (length rws, c) (map (\<lambda>x. [f x]) (concat rws)) = Inr (map (map f) rws)"
proof -
  have c: "concat (map (\<lambda>x. [f x]) (concat rws)) = map f (concat rws)"
    by (rule concat_map_cell)
  have l: "length (map f (concat rws)) = length rws * c"
    using length_concat_uniform [OF assms] by simp
  have "chunks (length rws) c (concat (map (map f) rws)) = map (map f) rws"
    using chunks_concat [of "map (map f) rws" "length rws" c] assms by simp
  then have k: "chunks (length rws) c (map f (concat rws)) = map (map f) rws"
    by (simp only: map_concat)
  show ?thesis
    unfolding reshape2_def c using l k by simp
qed

lemma preprocess_data_selected:
  assumes cfg: "feature_config self = Some cfg"
    and sel: "getitem_columns df (map name (features cfg)) = Inr df'"
    and wf: "\<forall>r \<in> set (rows df'). length r = length (columns df')"
    and ne: "concat (rows df') \<noteq> []"
    and sx: "scaler_X self = Some sc" "sc_mean sc = [m]" "sc_scale sc = [s]"
  shows "preprocess_data self df = Inr [map (map (\<lambda>x. (x - m) / s)) (rows df')]"
proof -
  have t: "transform sc (reshape_column (rows df'))
             = Inr (map (\<lambda>x. [(x - m) / s]) (concat (rows df')))"
    unfolding reshape_column_def using transform_column [OF sx(2,3) ne] .
  have r: "reshape2 (length (rows df'), length (columns df'))
             (map (\<lambda>x. [(x - m) / s]) (concat (rows df')))
           = Inr (map (map (\<lambda>x. (x - m) / s)) (rows df'))"
    using reshape2_scaled [OF wf] .
  show ?thesis
    by (simp add: preprocess_data_def cfg sel sx(1) t r expand_dims0_def Let_def)
qed

lemma preprocess_data_ok:
  assumes cfg: "feature_config self = Some cfg"
    and cols: "distinct (columns df)" "set (map name (features cfg)) \<subseteq> set (columns df)"
    and wf: "wf_frame df"
    and ne: "rows df \<noteq> []" "features cfg \<noteq> []"
    and sx: "scaler_X self = Some sc" "sc_mean sc = [m]" "sc_scale sc = [s]"
  shows "preprocess_data self df =
     Inr [map (\<lambda>r. map (\<lambda>n. (the (map_of (zip (columns df) r) n) - m) / s)
                  (map name (features cfg))) (rows df)]"
proof -
  let ?names = "map name (features cfg)"
  let ?df' = "\<lparr>columns = ?names,
      rows = map (\<lambda>r. map (\<lambda>n. the (map_of (zip (columns df) r) n)) ?names) (rows df)\<rparr>"
  have sel: "getitem_columns df ?names = Inr ?df'"
    using getitem_columns_ok [OF cols wf] .
  have w: "\<forall>r \<in> set (rows ?df'). length r = length (columns ?df')"
    by auto
  obtain r rs where rs: "rows df = r # rs" using ne(1) by (cases "rows df") auto
  obtain f fs where fs: "features cfg = f # fs" using ne(2) by (cases "features cfg") auto
  have n: "concat (rows ?df') \<noteq> []"
    by (simp add: rs fs)
  show ?thesis
    using preprocess_data_selected [OF cfg sel w n sx] by (simp add: comp_def)
qed

lemma map_of_zip_self:
  "distinct cs \<Longrightarrow> length r = length cs \<Longrightarrow> map (\<lambda>n. the (map_of (zip cs r) n)) cs = r"
proof (induction cs r rule: list_induct2')
  case (4 c cs x r)
  have "map (\<lambda>n. the (map_of (zip (c # cs) (x # r)) n)) cs
      = map (\<lambda>n. the (map_of (zip cs r) n)) cs"
    using 4(2) by (intro map_cong) auto
  with 4 show ?case by simp
qed simp_all

lemma getitem_columns_same:
  assumes "distinct (columns df)" and "wf_frame df"
  shows "getitem_columns df (columns df) = Inr df"
proof -
  have "map (\<lambda>r. map (\<lambda>n. the (map_of (zip (columns df) r) n)) (columns df)) (rows df)
      = map (\<lambda>r. r) (rows df)"
    using assms by (intro map_cong) (auto simp: wf_frame_def list_all_iff map_of_zip_self)
  then show ?thesis
    using getitem_columns_ok [OF assms(1) subset_refl assms(2)] by simp
qed

lemma preprocess_data_canonical:
  assumes cfg: "feature_config self = Some cfg"
    and cols: "columns df = map name (features cfg)" "distinct (columns df)"
    and wf: "wf_frame df"
    and ne: "rows df \<noteq> []" "features cfg \<noteq> []"
    and sx: "scaler_X self = Some sc" "sc_mean sc = [m]" "sc_scale sc = [s]"
  shows "preprocess_data self df = Inr [map (map (\<lambda>x. (x - m) / s)) (rows df)]"
proof -
  have sel: "getitem_columns df (map name (features cfg)) = Inr df"
    using getitem_columns_same [OF cols(2) wf] cols(1) by simp
  have w: "\<forall>r \<in> set (rows df). length r = length (columns df)"
    using wf by (simp add: wf_frame_def list_all_iff)
  obtain r rs where rs: "rows df = r # rs" using ne(1) by (cases "rows df") auto
  have "r \<noteq> []" using w rs cols(1) ne(2) by auto
  then have n: "concat (rows df) \<noteq> []" by (simp add: rs)
  show ?thesis
    using preprocess_data_selected [OF cfg sel w n sx] .
qed

lemma inverse_transform_cell:
  assumes "sc_mean sy = [my]" and "sc_scale sy = [sd]"
  shows "inverse_transform sy [[y]] = Inr [[y * sd + my]]"
  using assms by (simp add: inverse_transform_def check_array_def)

lemma predict_ok:
  assumes m: "model self = Some m"
    and pre: "preprocess_data self df = Inr X"
    and out: "m X = Inr [[y]]"
    and sy: "scaler_y self = Some sy" "sc_mean sy = [my]" "sc_scale sy = [sd]"
    and cfg: "feature_config self = Some cfg"
      "drought_categories cfg (drought_level (y * sd + my)) = Some c"
  shows "predict self now df =
     (Inr \<lparr>regcdi_value = y * sd + my,
           drought_category = label c,
           severity_level = drought_level (y * sd + my),
           confidence_score = calculate_confidence (y * sd + my),
           prediction_date = now,
           model_version = ''stat-LSTM-v1.0'',
           window_start = None,
           window_end = None\<rparr>, self)"
proof -
  have i: "inverse_transform sy [[y]] = Inr [[y * sd + my]]"
    using inverse_transform_cell [OF sy(2,3)] .
  have c: "categorize_drought self (y * sd + my) =
      Inr \<lparr>level = drought_level (y * sd + my), cat_label = label c,
           description = get_severity_description (drought_level (y * sd + my))\<rparr>"
    using cfg by (simp add: categorize_drought_def Let_def)
  show ?thesis
    by (simp add: predict_def m pre out sy(1) i index00_def c)
qed

lemma example_names: "map name (features example_config) = required_columns"
  by (simp add: example_config_def comp_def)

lemma distinct_required_columns: "distinct required_columns"
  by (simp add: required_columns_def)

lemma length_required_columns: "length required_columns = 7"
  by (simp add: required_columns_def)

lemma wf_canonical:
  "\<forall>r \<in> set rs. length r = 7 \<Longrightarrow> wf_frame \<lparr>columns = required_columns, rows = rs\<rparr>"
  by (simp add: wf_frame_def list_all_iff length_required_columns)

lemma length_example_row: "length example_row = 7"
  by (simp add: example_row_def)

lemma wf_example_frame: "wf_frame (example_frame n)"
  unfolding example_frame_def by (rule wf_canonical) (simp add: length_example_row)

lemma example_service_fields:
  "model example_service = Some example_model"
  "scaler_X example_service = Some \<lparr>sc_mean = [2], sc_scale = [4]\<rparr>"
  "scaler_y example_service = Some \<lparr>sc_mean = [1], sc_scale = [2]\<rparr>"
  "feature_config example_service = Some example_config"
  by (simp_all add: example_service_def)

lemma example_frame_fields:
  "columns (example_frame n) = required_columns"
  "rows (example_frame n) = replicate n example_row"
  by (simp_all add: example_frame_def)

section \<open>Prediction before the model is loaded\<close>

text \<open>
  Claim C6. While the model is not loaded, \<^verbatim>\<open>predict\<close> fails for every window with
  the model-not-loaded error (the code's \<^verbatim>\<open>ValueError("Model not loaded. Call
  load_model() first.")\<close>), returns no result, and leaves the service (model, scalers,
  feature configuration) as it was.
\<close>

theorem predict_model_not_loaded:
  assumes "model self = None"
  shows "predict self now df =
           (Inl (ValueError ''Model not loaded. Call load_model() first.''), self)"
  using assms by (simp add: predict_def)

theorem predict_model_not_loaded_witness:
  "model init_service = None \<and>
   predict init_service ''2025-01-15T10:30:00'' (example_frame 12) =
     (Inl (ValueError ''Model not loaded. Call load_model() first.''), init_service)"
proof -
  have n: "model init_service = None" by (simp add: init_service_def)
  from n predict_model_not_loaded [OF n] show ?thesis by blast
qed

section \<open>Forward preprocessing\<close>

text \<open>
  Claim C7. For a window of 12 rows holding the 7 configured features and a scaler with
  one mean and one scale, preprocessing flattens the 84 values into one column, applies
  \<open>(x - mean) / scale\<close> to every cell alike, restores the 12 rows of 7 values and wraps
  them in a batch of one.
\<close>

theorem preprocess_data_uniform_scaling:
  assumes cfg: "feature_config self = Some cfg"
    and cols: "distinct (columns df)" "set (map name (features cfg)) \<subseteq> set (columns df)"
    and wf: "wf_frame df"
    and shape: "length (rows df) = 12" "length (features cfg) = 7"
    and sx: "scaler_X self = Some sc" "sc_mean sc = [m]" "sc_scale sc = [s]"
  shows "\<exists>df'. getitem_columns df (map name (features cfg)) = Inr df'
           \<and> length (reshape_column (rows df')) = 84
           \<and> (\<forall>cell \<in> set (reshape_column (rows df')). length cell = 1)
           \<and> preprocess_data self df = Inr [map (map (\<lambda>x. (x - m) / s)) (rows df')]
           \<and> length (map (map (\<lambda>x. (x - m) / s)) (rows df')) = 12
           \<and> (\<forall>r \<in> set (map (map (\<lambda>x. (x - m) / s)) (rows df')). length r = 7)"
proof -
  let ?names = "map name (features cfg)"
  let ?df' = "\<lparr>columns = ?names,
      rows = map (\<lambda>r. map (\<lambda>n. the (map_of (zip (columns df) r) n)) ?names) (rows df)\<rparr>"
  have sel: "getitem_columns df ?names = Inr ?df'"
    using getitem_columns_ok [OF cols wf] .
  have w: "\<forall>r \<in> set (rows ?df'). length r = 7"
    using shape(2) by auto
  have fl: "length (reshape_column (rows ?df')) = 84"
    using length_concat_uniform [OF w] shape(1) by (simp add: reshape_column_def)
  have cell: "\<forall>cell \<in> set (reshape_column (rows ?df')). length cell = 1"
    by (auto simp: reshape_column_def)
  have ne: "rows df \<noteq> []" "features cfg \<noteq> []"
    using shape by auto
  have pre: "preprocess_data self df = Inr [map (map (\<lambda>x. (x - m) / s)) (rows ?df')]"
    using preprocess_data_ok [OF cfg cols wf ne sx] by (simp add: comp_def)
  have l: "length (map (map (\<lambda>x. (x - m) / s)) (rows ?df')) = 12"
    using shape(1) by simp
  have r: "\<forall>r \<in> set (map (map (\<lambda>x. (x - m) / s)) (rows ?df')). length r = 7"
    using shape(2) by auto
  from sel fl cell pre l r show ?thesis by blast
qed

text \<open>The example window of 12 rows, scaled with mean 2 and scale 4.\<close>

theorem preprocess_data_uniform_scaling_witness:
  "preprocess_data example_service (example_frame 12) =
     Inr [replicate 12 [2, 7, 9 / 2, - 3 / 4, - 1 / 2, 11 / 8, - 5 / 4]]"
proof -
  have cols: "distinct (columns (example_frame 12))"
    "set (map name (features example_config)) \<subseteq> set (columns (example_frame 12))"
    by (simp_all add: example_names example_frame_fields distinct_required_columns)
  have shape: "length (rows (example_frame 12)) = 12" "length (features example_config) = 7"
    by (simp_all add: example_frame_fields example_config_def length_required_columns)
  have sc: "sc_mean \<lparr>sc_mean = [2], sc_scale = [4]\<rparr> = [2]"
    "sc_scale \<lparr>sc_mean = [2], sc_scale = [4]\<rparr> = [4]"
    by simp_all
  obtain df' where sel: "getitem_columns (example_frame 12) (map name (features example_config)) = Inr df'"
    and pre: "preprocess_data example_service (example_frame 12)
                = Inr [map (map (\<lambda>x. (x - 2) / 4)) (rows df')]"
    using preprocess_data_uniform_scaling [OF example_service_fields(4) cols wf_example_frame
        shape example_service_fields(2) sc]
    by blast
  have "getitem_columns (example_frame 12) (map name (features example_config))
          = Inr (example_frame 12)"
    using getitem_columns_same [OF cols(1) wf_example_frame]
    by (simp add: example_names example_frame_fields)
  with sel have "df' = example_frame 12" by simp
  with pre show ?thesis
    by (simp add: example_frame_fields example_row_def)
qed

section \<open>Rolling-window batcher\<close>

lemma predict_pair: "predict self now df = (fst (predict self now df), self)"
  using predict_state [of self now df] by (cases "predict self now df") simp

lemma predict_batch_loop_eq:
  "predict_batch_loop clock df is self acc
     = (acc @ concat (map (window_results self clock df) is), self)"
proof (induction "is" arbitrary: acc)
  case Nil
  show ?case by simp
next
  case (Cons i "is")
  have p: "predict self (clock i) (iloc df i (i + 12)) = (window_outcome self clock df i, self)"
    unfolding window_outcome_def by (rule predict_pair)
  show ?case
  proof (cases "window_outcome self clock df i")
    case (Inl e)
    with p Cons show ?thesis by (simp add: window_results_def)
  next
    case (Inr r)
    with p Cons show ?thesis by (simp add: window_results_def)
  qed
qed

lemma py_range_windows: "py_range (int n - 11) = map int [0..<n - 11]"
proof -
  have "nat (int n - 11) = n - 11" by simp
  then show ?thesis by (simp add: py_range_def)
qed

lemma predict_batch_eq:
  "predict_batch self clock df =
     (concat (map (window_results self clock df) (map int [0..<length (rows df) - 11])), self)"
  by (simp add: predict_batch_def predict_batch_loop_eq py_range_windows)

lemma iloc_window:
  assumes "0 \<le> i" and "i + 12 \<le> int (length (rows df))"
  shows "rows (iloc df i (i + 12)) = take 12 (drop (nat i) (rows df))"
    and "length (rows (iloc df i (i + 12))) = 12"
    and "columns (iloc df i (i + 12)) = columns df"
proof -
  have a: "min i (int (length (rows df))) = i" "min (i + 12) (int (length (rows df))) = i + 12"
    using assms by simp_all
  show r: "rows (iloc df i (i + 12)) = take 12 (drop (nat i) (rows df))"
    using assms a by (simp add: iloc_def py_slice_def Let_def)
  show "length (rows (iloc df i (i + 12))) = 12"
    unfolding r using assms by simp
  show "columns (iloc df i (i + 12)) = columns df"
    by (simp add: iloc_def)
qed

lemma window_index_bounds:
  "i \<in> set (map int [0..<n - 11]) \<Longrightarrow> 0 \<le> i \<and> i + 12 \<le> int n"
  by auto

lemma window_results_tags:
  "r \<in> set (window_results self clock df i)
     \<Longrightarrow> window_start r = Some i \<and> window_end r = Some (i + 11)"
  by (auto simp: window_results_def split: sum.splits)

lemma window_starts_filter:
  "map (the \<circ> window_start) (concat (map (window_results self clock df) is))
     = filter (\<lambda>i. \<not> isl (window_outcome self clock df i)) is"
  by (induction "is") (auto simp: window_results_def split: sum.splits)

lemma window_results_ok:
  "concat (map (window_results self clock df) is)
     = map (\<lambda>i. (projr (window_outcome self clock df i))
                   \<lparr>window_start := Some i, window_end := Some (i + 11)\<rparr>)
           (filter (\<lambda>i. \<not> isl (window_outcome self clock df i)) is)"
  by (induction "is") (auto simp: window_results_def split: sum.splits)

lemma sorted_window_indices: "sorted_wrt (<) (map int [0..<n])"
  by (simp add: sorted_wrt_map)

lemma spec_categories_level: "\<exists>c. spec_categories (drought_level d) = Some c"
  by (simp add: drought_level_def spec_categories_def)

lemma example_canonical:
  assumes "feature_config self = Some example_config"
    and "scaler_X self = Some \<lparr>sc_mean = [2], sc_scale = [4]\<rparr>"
    and "columns df = required_columns" and "rows df \<noteq> []"
    and "\<forall>r \<in> set (rows df). length r = 7"
  shows "preprocess_data self df = Inr [map (map (\<lambda>x. (x - 2) / 4)) (rows df)]"
proof -
  have c: "columns df = map name (features example_config)"
    using assms(3) by (simp add: example_names)
  have d: "distinct (columns df)"
    using assms(3) by (simp add: distinct_required_columns)
  have w: "wf_frame df"
    using assms(3,5) by (simp add: wf_frame_def list_all_iff length_required_columns)
  have f: "features example_config \<noteq> []"
    by (simp add: example_config_def required_columns_def)
  show ?thesis
    using preprocess_data_canonical [OF assms(1) c d w assms(4) f assms(2)] by simp
qed

lemma predict_example:
  "predict example_service now (example_frame (Suc n)) =
     (Inr \<lparr>regcdi_value = 5, drought_category = ''No Drought'', severity_level = ''no_drought'',
           confidence_score = 1, prediction_date = now, model_version = ''stat-LSTM-v1.0'',
           window_start = None, window_end = None\<rparr>, example_service)"
proof -
  let ?X = "[map (map (\<lambda>x. (x - 2) / 4)) (rows (example_frame (Suc n)))]"
  have pre: "preprocess_data example_service (example_frame (Suc n)) = Inr ?X"
    by (rule example_canonical)
       (simp_all add: example_service_fields example_frame_fields length_example_row)
  have out: "example_model ?X = Inr [[2]]"
    by (simp add: example_model_def example_frame_fields example_row_def)
  have lv5: "drought_level 5 = ''no_drought''"
    by (simp add: drought_level_def)
  have lv: "drought_level (2 * 2 + 1) = ''no_drought''"
    by (simp add: drought_level_def)
  have cat: "drought_categories example_config (drought_level (2 * 2 + 1))
               = Some \<lparr>label = ''No Drought''\<rparr>"
    unfolding lv by (simp add: example_config_def spec_categories_simps)
  have sy: "sc_mean \<lparr>sc_mean = [1], sc_scale = [2]\<rparr> = [1]"
    "sc_scale \<lparr>sc_mean = [1], sc_scale = [2]\<rparr> = [2]"
    by simp_all
  have cf: "calculate_confidence 5 = 1"
    by (simp add: calculate_confidence_eq)
  show ?thesis
    using predict_ok [OF example_service_fields(1) pre out example_service_fields(3) sy
        example_service_fields(4) cat, of now]
    by (simp add: lv5 cf)
qed

lemma iloc_example:
  assumes "0 \<le> i" and "i + 12 \<le> int N"
  shows "iloc (example_frame N) i (i + 12) = example_frame 12"
proof -
  have "rows (iloc (example_frame N) i (i + 12)) = take 12 (drop (nat i) (rows (example_frame N)))"
    using assms by (intro iloc_window(1)) (simp_all add: example_frame_fields)
  also have "\<dots> = replicate 12 example_row"
  proof -
    have "12 \<le> N - nat i" using assms by linarith
    then show ?thesis by (simp add: example_frame_fields min_def)
  qed
  finally have "rows (iloc (example_frame N) i (i + 12)) = replicate 12 example_row" .
  then show ?thesis
    by (simp add: iloc_def example_frame_def)
qed

lemma window_outcome_example:
  assumes "0 \<le> i" and "i + 12 \<le> int N"
  shows "\<not> isl (window_outcome example_service clock (example_frame N) i)"
proof -
  have "(12::nat) = Suc 11" by simp
  then show ?thesis
    unfolding window_outcome_def iloc_example [OF assms]
    using predict_example [of "clock i" 11] by simp
qed

lemma example_windows_ok:
  "\<forall>i \<in> set (map int [0..<length (rows (example_frame N)) - 11]).
      \<not> isl (window_outcome example_service clock (example_frame N) i)"
proof
  fix i assume "i \<in> set (map int [0..<length (rows (example_frame N)) - 11])"
  then have "0 \<le> i \<and> i + 12 \<le> int (length (rows (example_frame N)))"
    by (rule window_index_bounds)
  then show "\<not> isl (window_outcome example_service clock (example_frame N) i)"
    using window_outcome_example [of i N clock] by (simp add: example_frame_fields)
qed

lemma picky_service_fields:
  "model picky_service = Some picky_model"
  "scaler_X picky_service = Some \<lparr>sc_mean = [2], sc_scale = [4]\<rparr>"
  "scaler_y picky_service = Some \<lparr>sc_mean = [1], sc_scale = [2]\<rparr>"
  "feature_config picky_service = Some example_config"
  by (simp_all add: picky_service_def example_service_def)

lemma predict_picky:
  assumes "columns df = required_columns" and "rows df = (x # xs) # rs"
    and "\<forall>r \<in> set (rows df). length r = 7"
  shows "isl (fst (predict picky_service now df)) \<longleftrightarrow> x < 2"
proof -
  let ?X = "[map (map (\<lambda>x. (x - 2) / 4)) (rows df)]"
  have ne: "rows df \<noteq> []" using assms(2) by simp
  have pre: "preprocess_data picky_service df = Inr ?X"
    using example_canonical [OF picky_service_fields(4,2) assms(1) ne assms(3)] .
  show ?thesis
  proof (cases "x < 2")
    case True
    then have "picky_model ?X = Inl (ModelFailure ''invalid input'')"
      by (simp add: picky_model_def assms(2))
    then have "predict picky_service now df = (Inl (ModelFailure ''invalid input''), picky_service)"
      by (simp add: predict_def picky_service_fields(1) pre)
    with True show ?thesis by simp
  next
    case False
    then have out: "picky_model ?X = Inr [[(x - 2) / 4]]"
      by (simp add: picky_model_def assms(2))
    obtain c where c: "drought_categories example_config (drought_level ((x - 2) / 4 * 2 + 1)) = Some c"
      using spec_categories_level [of "(x - 2) / 4 * 2 + 1"] by (auto simp: example_config_def)
    have sy: "sc_mean \<lparr>sc_mean = [1], sc_scale = [2]\<rparr> = [1]"
      "sc_scale \<lparr>sc_mean = [1], sc_scale = [2]\<rparr> = [2]"
      by simp_all
    have "\<not> isl (fst (predict picky_service now df))"
      using predict_ok [OF picky_service_fields(1) pre out picky_service_fields(3) sy
          picky_service_fields(4) c, of now]
      by simp
    with False show ?thesis by simp
  qed
qed

lemma picky_frame_fields:
  "columns picky_frame = required_columns"
  "rows picky_frame = example_row # bad_row # replicate 12 example_row"
  by (simp_all add: picky_frame_def)

lemma picky_window:
  assumes "rows (iloc picky_frame i (i + 12)) = (x # xs) # rs"
    and "\<forall>r \<in> set ((x # xs) # rs). length r = 7"
  shows "isl (window_outcome picky_service clock picky_frame i) \<longleftrightarrow> x < 2"
proof -
  have c: "columns (iloc picky_frame i (i + 12)) = required_columns"
    by (simp add: iloc_def picky_frame_fields)
  have w: "\<forall>r \<in> set (rows (iloc picky_frame i (i + 12))). length r = 7"
    unfolding assms(1) using assms(2) .
  show ?thesis
    unfolding window_outcome_def by (rule predict_picky [OF c assms(1) w])
qed

lemma picky_rows:
  "rows (iloc picky_frame 0 (0 + 12)) = (10 # tl example_row) # bad_row # replicate 10 example_row"
  "rows (iloc picky_frame 1 (1 + 12)) = (-10 # tl bad_row) # replicate 11 example_row"
  "rows (iloc picky_frame 2 (2 + 12)) = (10 # tl example_row) # replicate 11 example_row"
  by (simp_all add: iloc_def py_slice_def picky_frame_fields example_row_def bad_row_def
      eval_nat_numeral)

lemma picky_outcomes:
  "\<not> isl (window_outcome picky_service clock picky_frame 0)"
  "isl (window_outcome picky_service clock picky_frame 1)"
  "\<not> isl (window_outcome picky_service clock picky_frame 2)"
proof -
  have 0: "isl (window_outcome picky_service clock picky_frame 0) \<longleftrightarrow> (10::real) < 2"
    by (rule picky_window [OF picky_rows(1)])
      (simp add: example_row_def bad_row_def)
  have 1: "isl (window_outcome picky_service clock picky_frame 1) \<longleftrightarrow> (-10::real) < 2"
    by (rule picky_window [OF picky_rows(2)])
      (simp add: example_row_def bad_row_def)
  have 2: "isl (window_outcome picky_service clock picky_frame 2) \<longleftrightarrow> (10::real) < 2"
    by (rule picky_window [OF picky_rows(3)])
      (simp add: example_row_def bad_row_def)
  from 0 show "\<not> isl (window_outcome picky_service clock picky_frame 0)" by simp
  from 1 show "isl (window_outcome picky_service clock picky_frame 1)" by simp
  from 2 show "\<not> isl (window_outcome picky_service clock picky_frame 2)" by simp
qed

text \<open>
  Claim C3. For a table of \<open>N\<close> rows the batch predictor visits the windows starting
  at 0, 1, ..., \<open>N - 12\<close>, each made of the rows \<open>i\<close> to \<open>i + 11\<close>; every result
  carries \<open>window_start = i\<close> and \<open>window_end = i + 11\<close>, the results come in
  strictly increasing \<open>window_start\<close>, and fewer than 12 rows give the empty list.
  When every window predicts, the tags are exactly (0, 11), (1, 12), ...: one result
  for 12 rows, two for 13.
\<close>

theorem predict_batch_windows:
  "fst (predict_batch self clock df) =
      concat (map (window_results self clock df) (map int [0..<length (rows df) - 11]))
   \<and> (\<forall>i \<in> set (map int [0..<length (rows df) - 11]).
         rows (iloc df i (i + 12)) = take 12 (drop (nat i) (rows df))
         \<and> length (rows (iloc df i (i + 12))) = 12)
   \<and> (\<forall>r \<in> set (fst (predict_batch self clock df)).
         \<exists>i. 0 \<le> i \<and> i + 12 \<le> int (length (rows df))
           \<and> window_start r = Some i \<and> window_end r = Some (i + 11))
   \<and> sorted_wrt (<) (map (the \<circ> window_start) (fst (predict_batch self clock df)))
   \<and> (length (rows df) < 12 \<longrightarrow> predict_batch self clock df = ([], self))
   \<and> ((\<forall>i \<in> set (map int [0..<length (rows df) - 11]).
          \<not> isl (window_outcome self clock df i)) \<longrightarrow>
        map (\<lambda>r. (window_start r, window_end r)) (fst (predict_batch self clock df))
          = map (\<lambda>i. (Some i, Some (i + 11))) (map int [0..<length (rows df) - 11]))"
proof -
  let ?ws = "map int [0..<length (rows df) - 11]"
  let ?res = "fst (predict_batch self clock df)"
  have 1: "?res = concat (map (window_results self clock df) ?ws)"
    by (simp add: predict_batch_eq)
  have 2: "\<forall>i \<in> set ?ws. rows (iloc df i (i + 12)) = take 12 (drop (nat i) (rows df))
         \<and> length (rows (iloc df i (i + 12))) = 12"
  proof
    fix i assume "i \<in> set ?ws"
    then have "0 \<le> i \<and> i + 12 \<le> int (length (rows df))" by (rule window_index_bounds)
    then show "rows (iloc df i (i + 12)) = take 12 (drop (nat i) (rows df))
         \<and> length (rows (iloc df i (i + 12))) = 12"
      using iloc_window(1,2) [of i df] by blast
  qed
  have 3: "\<forall>r \<in> set ?res. \<exists>i. 0 \<le> i \<and> i + 12 \<le> int (length (rows df))
           \<and> window_start r = Some i \<and> window_end r = Some (i + 11)"
  proof
    fix r assume "r \<in> set ?res"
    then obtain i where i: "i \<in> set ?ws" and r: "r \<in> set (window_results self clock df i)"
      unfolding 1 by auto
    from i have "0 \<le> i \<and> i + 12 \<le> int (length (rows df))" by (rule window_index_bounds)
    with window_results_tags [OF r]
    show "\<exists>i. 0 \<le> i \<and> i + 12 \<le> int (length (rows df))
           \<and> window_start r = Some i \<and> window_end r = Some (i + 11)"
      by blast
  qed
  have 4: "sorted_wrt (<) (map (the \<circ> window_start) ?res)"
    unfolding 1 window_starts_filter
    by (rule sorted_wrt_filter) (rule sorted_window_indices)
  have 5: "length (rows df) < 12 \<longrightarrow> predict_batch self clock df = ([], self)"
    by (simp add: predict_batch_eq)
  have 6: "(\<forall>i \<in> set ?ws. \<not> isl (window_outcome self clock df i)) \<longrightarrow>
        map (\<lambda>r. (window_start r, window_end r)) ?res = map (\<lambda>i. (Some i, Some (i + 11))) ?ws"
  proof
    assume ok: "\<forall>i \<in> set ?ws. \<not> isl (window_outcome self clock df i)"
    then have f: "filter (\<lambda>i. \<not> isl (window_outcome self clock df i)) ?ws = ?ws"
      by (simp only: filter_True)
    show "map (\<lambda>r. (window_start r, window_end r)) ?res = map (\<lambda>i. (Some i, Some (i + 11))) ?ws"
      unfolding 1 window_results_ok f by (simp add: comp_def)
  qed
  from 1 2 3 4 5 6 show ?thesis by blast
qed

text \<open>Tables of 12, 13 and 11 rows on the example service.\<close>

theorem predict_batch_windows_witness:
  "map (\<lambda>r. (window_start r, window_end r))
       (fst (predict_batch example_service example_clock (example_frame 12)))
     = [(Some 0, Some 11)]
   \<and> map (\<lambda>r. (window_start r, window_end r))
       (fst (predict_batch example_service example_clock (example_frame 13)))
     = [(Some 0, Some 11), (Some 1, Some 12)]
   \<and> predict_batch example_service example_clock (example_frame 11) = ([], example_service)"
proof -
  have u1: "map int [0..<length (rows (example_frame 12)) - 11] = [0]"
    by (simp add: example_frame_fields)
  have u2: "map int [0..<length (rows (example_frame 13)) - 11] = [0, 1]"
    by (simp add: example_frame_fields upt_rec)
  have a: "map (\<lambda>r. (window_start r, window_end r))
       (fst (predict_batch example_service example_clock (example_frame 12)))
     = [(Some 0, Some 11)]"
  proof -
    have "(\<forall>i \<in> set (map int [0..<length (rows (example_frame 12)) - 11]).
             \<not> isl (window_outcome example_service example_clock (example_frame 12) i)) \<longrightarrow>
          map (\<lambda>r. (window_start r, window_end r))
            (fst (predict_batch example_service example_clock (example_frame 12)))
          = map (\<lambda>i. (Some i, Some (i + 11))) (map int [0..<length (rows (example_frame 12)) - 11])"
      using predict_batch_windows [of example_service example_clock "example_frame 12"] by blast
    with example_windows_ok [of 12 example_clock] show ?thesis
      unfolding u1 by simp
  qed
  have b: "map (\<lambda>r. (window_start r, window_end r))
       (fst (predict_batch example_service example_clock (example_frame 13)))
     = [(Some 0, Some 11), (Some 1, Some 12)]"
  proof -
    have "(\<forall>i \<in> set (map int [0..<length (rows (example_frame 13)) - 11]).
             \<not> isl (window_outcome example_service example_clock (example_frame 13) i)) \<longrightarrow>
          map (\<lambda>r. (window_start r, window_end r))
            (fst (predict_batch example_service example_clock (example_frame 13)))
          = map (\<lambda>i. (Some i, Some (i + 11))) (map int [0..<length (rows (example_frame 13)) - 11])"
      using predict_batch_windows [of example_service example_clock "example_frame 13"] by blast
    with example_windows_ok [of 13 example_clock] show ?thesis
      unfolding u2 by simp
  qed
  have c: "predict_batch example_service example_clock (example_frame 11) = ([], example_service)"
  proof -
    have "length (rows (example_frame 11)) < 12 \<longrightarrow>
          predict_batch example_service example_clock (example_frame 11) = ([], example_service)"
      using predict_batch_windows [of example_service example_clock "example_frame 11"] by blast
    then show ?thesis by (simp add: example_frame_fields)
  qed
  from a b c show ?thesis by blast
qed

text \<open>
  Claim C4. For a table of at least 12 rows, the batch predictor drops exactly the
  windows whose prediction raises: the number of results is \<open>N - 11\<close> less the number
  of failing windows, the results are those of the windows that predict, each with
  its tags, in increasing order of \<open>window_start\<close>.
\<close>

theorem predict_batch_skips_failures:
  assumes "12 \<le> length (rows df)"
  shows "int (length (fst (predict_batch self clock df)))
           = (int (length (rows df)) - 11)
             - int (length (filter (\<lambda>i. isl (window_outcome self clock df i))
                             (map int [0..<length (rows df) - 11])))
       \<and> fst (predict_batch self clock df)
           = map (\<lambda>i. (projr (window_outcome self clock df i))
                         \<lparr>window_start := Some i, window_end := Some (i + 11)\<rparr>)
                 (filter (\<lambda>i. \<not> isl (window_outcome self clock df i))
                    (map int [0..<length (rows df) - 11]))
       \<and> map window_start (fst (predict_batch self clock df))
           = map Some (filter (\<lambda>i. \<not> isl (window_outcome self clock df i))
                         (map int [0..<length (rows df) - 11]))
       \<and> sorted_wrt (<) (filter (\<lambda>i. \<not> isl (window_outcome self clock df i))
                            (map int [0..<length (rows df) - 11]))"
proof -
  let ?ws = "map int [0..<length (rows df) - 11]"
  let ?res = "fst (predict_batch self clock df)"
  let ?bad = "\<lambda>i. isl (window_outcome self clock df i)"
  have r: "?res = map (\<lambda>i. (projr (window_outcome self clock df i))
                         \<lparr>window_start := Some i, window_end := Some (i + 11)\<rparr>)
                 (filter (\<lambda>i. \<not> ?bad i) ?ws)"
    unfolding predict_batch_eq fst_conv by (rule window_results_ok)
  have "length (filter ?bad ?ws) + length (filter (\<lambda>i. \<not> ?bad i) ?ws) = length ?ws"
    by (rule sum_length_filter_compl)
  moreover have "length ?res = length (filter (\<lambda>i. \<not> ?bad i) ?ws)"
    by (subst r) simp
  moreover have "int (length ?ws) = int (length (rows df)) - 11"
    using assms by simp
  ultimately have l: "int (length ?res) = (int (length (rows df)) - 11) - int (length (filter ?bad ?ws))"
    by linarith
  have s: "map window_start ?res = map Some (filter (\<lambda>i. \<not> ?bad i) ?ws)"
    by (subst r) (simp add: comp_def)
  have o: "sorted_wrt (<) (filter (\<lambda>i. \<not> ?bad i) ?ws)"
    by (rule sorted_wrt_filter) (rule sorted_window_indices)
  from l r s o show ?thesis by blast
qed

text \<open>A table of 14 rows whose window 1 makes the network raise.\<close>

theorem predict_batch_skips_failures_witness:
  "12 \<le> length (rows picky_frame)
   \<and> length (fst (predict_batch picky_service example_clock picky_frame)) = 2
   \<and> map window_start (fst (predict_batch picky_service example_clock picky_frame))
       = [Some 0, Some 2]"
proof -
  have n: "12 \<le> length (rows picky_frame)"
    by (simp add: picky_frame_fields)
  have u: "map int [0..<length (rows picky_frame) - 11] = [0, 1, 2]"
    by (simp add: picky_frame_fields upt_rec)
  have l: "int (length (rows picky_frame)) = 14"
    by (simp add: picky_frame_fields)
  note t = predict_batch_skips_failures [OF n, of picky_service example_clock]
  have "int (length (fst (predict_batch picky_service example_clock picky_frame)))
           = (int (length (rows picky_frame)) - 11)
             - int (length (filter (\<lambda>i. isl (window_outcome picky_service example_clock picky_frame i))
                             (map int [0..<length (rows picky_frame) - 11])))"
    using t by blast
  then have a: "length (fst (predict_batch picky_service example_clock picky_frame)) = 2"
    unfolding u l by (simp add: picky_outcomes)
  have "map window_start (fst (predict_batch picky_service example_clock picky_frame))
           = map Some (filter (\<lambda>i. \<not> isl (window_outcome picky_service example_clock picky_frame i))
                         (map int [0..<length (rows picky_frame) - 11]))"
    using t by blast
  then have b: "map window_start (fst (predict_batch picky_service example_clock picky_frame))
       = [Some 0, Some 2]"
    unfolding u by (simp add: picky_outcomes)
  from n a b show ?thesis by simp
qed

section \<open>Window length\<close>

lemma predict_manual_wrong_length:
  assumes "length (data req) \<noteq> 12"
  shows "predict_manual svc save now req =
     (Inl (HTTPException 500 (StrOf (HTTPException 400
        (Expected12Months (int (length (data req))))))), svc)"
  using assms by (simp add: predict_manual_def DataFrame_of_dicts_def except_500_def Let_def)

text \<open>
  \<^verbatim>\<open>predict\<close> does not look at the number of rows: on the example service a window
  of one row is scaled, run through the network and classified.
\<close>

theorem predict_short_window_counterexample:
  "length (rows (example_frame 1)) \<noteq> 12
   \<and> predict example_service ''2025-01-15T10:30:00'' (example_frame 1) =
     (Inr \<lparr>regcdi_value = 5, drought_category = ''No Drought'', severity_level = ''no_drought'',
           confidence_score = 1, prediction_date = ''2025-01-15T10:30:00'',
           model_version = ''stat-LSTM-v1.0'', window_start = None, window_end = None\<rparr>,
      example_service)"
  using predict_example [of "''2025-01-15T10:30:00''" 0]
  by (simp add: example_frame_fields)

section \<open>Upload handler and request validation\<close>

lemma validate_out_of_range:
  assumes "mf \<in> set (data req)"
    and "\<not> (0 \<le> ndvi mf \<and> ndvi mf \<le> 1 \<and> 0 \<le> soil_moisture mf \<and> soil_moisture mf \<le> 100)"
  shows "validate_manual_prediction_request req = Inl ValidationError"
proof -
  have "isl (validate_monthly_features mf)"
    using assms(2) by (simp add: validate_monthly_features_def)
  with assms(1) have "list_ex (\<lambda>m. isl (validate_monthly_features m)) (data req)"
    by (auto simp: list_ex_iff)
  then show ?thesis by (simp add: validate_manual_prediction_request_def)
qed

lemma upload_data_ok:
  assumes "set required_columns \<subseteq> set (columns df)"
  shows "upload_data self None clock df =
     (Inr \<lparr>message = ''Data processed successfully'',
           total_predictions = int (length (fst (predict_batch self clock df))),
           predictions = fst (predict_batch self clock df)\<rparr>, self)"
proof -
  have f: "set required_columns - set (columns df) = {}"
    using assms by auto
  have p: "predict_batch self clock df = (fst (predict_batch self clock df), self)"
    by (simp add: predict_batch_eq)
  show ?thesis
    unfolding upload_data_def Let_def f
    by (subst p) (simp add: except_500_def)
qed

section \<open>The loaded pipeline on a table\<close>

lemma predict_model_raises:
  assumes "model self = Some net" and "preprocess_data self df = Inr X" and "net X = Inl e"
  shows "predict self now df = (Inl e, self)"
  using assms by (simp add: predict_def)

lemma wf_frame_iloc: "wf_frame df \<Longrightarrow> wf_frame (iloc df i j)"
  by (auto simp: wf_frame_def list_all_iff iloc_def py_slice_def Let_def
      dest!: in_set_takeD in_set_dropD)

lemma predict_loaded:
  assumes m: "model self = Some net" and cfg: "feature_config self = Some cfg"
    and cols: "distinct (columns df)" "set (map name (features cfg)) \<subseteq> set (columns df)"
    and wf: "wf_frame df"
    and ne: "rows df \<noteq> []" "features cfg \<noteq> []"
    and sx: "scaler_X self = Some sc" "sc_mean sc = [m]" "sc_scale sc = [s]"
    and sy: "scaler_y self = Some sy" "sc_mean sy = [my]" "sc_scale sy = [sd]"
    and out: "net [map (\<lambda>r. map (\<lambda>n. (the (map_of (zip (columns df) r) n) - m) / s)
                       (map name (features cfg))) (rows df)] = Inr [[y]]"
    and cat: "drought_categories cfg (drought_level (y * sd + my)) = Some c"
  shows "predict self now df =
     (Inr \<lparr>regcdi_value = y * sd + my,
           drought_category = label c,
           severity_level = drought_level (y * sd + my),
           confidence_score = calculate_confidence (y * sd + my),
           prediction_date = now,
           model_version = ''stat-LSTM-v1.0'',
           window_start = None,
           window_end = None\<rparr>, self)"
  using predict_ok [OF m preprocess_data_ok [OF cfg cols wf ne sx] out sy cfg cat] .

lemma window_outcome_loaded:
  assumes m: "model self = Some net" and cfg: "feature_config self = Some cfg"
    and cols: "distinct (columns df)" "set (map name (features cfg)) \<subseteq> set (columns df)"
    and wf: "wf_frame df"
    and ne: "features cfg \<noteq> []"
    and sx: "scaler_X self = Some sc" "sc_mean sc = [m]" "sc_scale sc = [s]"
    and sy: "scaler_y self = Some sy" "sc_mean sy = [my]" "sc_scale sy = [sd]"
    and i: "0 \<le> i" "i + 12 \<le> int (length (rows df))"
    and out: "net [map (\<lambda>r. map (\<lambda>n. (the (map_of (zip (columns df) r) n) - m) / s)
                       (map name (features cfg))) (take 12 (drop (nat i) (rows df)))] = Inr [[y]]"
    and cat: "drought_categories cfg (drought_level (y * sd + my)) = Some c"
  shows "window_outcome self clock df i =
     Inr \<lparr>regcdi_value = y * sd + my,
          drought_category = label c,
          severity_level = drought_level (y * sd + my),
          confidence_score = calculate_confidence (y * sd + my),
          prediction_date = clock i,
          model_version = ''stat-LSTM-v1.0'',
          window_start = None,
          window_end = None\<rparr>"
proof -
  let ?w = "iloc df i (i + 12)"
  have c: "columns ?w = columns df" and r: "rows ?w = take 12 (drop (nat i) (rows df))"
    and l: "length (rows ?w) = 12"
    using iloc_window [OF i] by simp_all
  have ne': "rows ?w \<noteq> []" using l by auto
  have cols': "distinct (columns ?w)" "set (map name (features cfg)) \<subseteq> set (columns ?w)"
    using cols c by simp_all
  have out': "net [map (\<lambda>r. map (\<lambda>n. (the (map_of (zip (columns ?w) r) n) - m) / s)
                       (map name (features cfg))) (rows ?w)] = Inr [[y]]"
    unfolding c r using out .
  show ?thesis
    unfolding window_outcome_def
    using predict_loaded [OF m cfg cols' wf_frame_iloc [OF wf] ne' ne sx sy out' cat, of "clock i"]
    by simp
qed

lemma concat_window_results:
  assumes "\<forall>i \<in> set ws. window_outcome self clock df i = Inr (g i)"
  shows "concat (map (window_results self clock df) ws)
       = map (\<lambda>i. (g i)\<lparr>window_start := Some i, window_end := Some (i + 11)\<rparr>) ws"
  using assms by (induction ws) (simp_all add: window_results_def)

lemma scaler_fields:
  "sc_mean \<lparr>sc_mean = [a], sc_scale = [b]\<rparr> = [a]"
  "sc_scale \<lparr>sc_mean = [a], sc_scale = [b]\<rparr> = [b]"
  by simp_all

lemma features_example_config: "features example_config \<noteq> []"
  by (simp add: example_config_def required_columns_def)

lemma canonical_frame_hyps:
  assumes "\<forall>r \<in> set rs. length r = 7"
  shows "distinct (columns \<lparr>columns = required_columns, rows = rs\<rparr>)"
    and "set (map name (features example_config))
           \<subseteq> set (columns \<lparr>columns = required_columns, rows = rs\<rparr>)"
    and "wf_frame \<lparr>columns = required_columns, rows = rs\<rparr>"
  using assms by (simp_all add: distinct_required_columns example_names wf_canonical)

lemma canonical_tensor:
  assumes "\<forall>r \<in> set rs. length r = 7"
  shows "map (\<lambda>r. map (\<lambda>n. (the (map_of (zip required_columns r) n) - m) / s) required_columns) rs
       = map (map (\<lambda>x. (x - m) / s)) rs"
proof (rule map_cong [OF refl])
  fix r assume "r \<in> set rs"
  then have "length r = length required_columns"
    using assms by (simp add: length_required_columns)
  then have "map (\<lambda>n. the (map_of (zip required_columns r) n)) required_columns = r"
    using map_of_zip_self [OF distinct_required_columns] by blast
  then have "map ((\<lambda>x. (x - m) / s) \<circ> (\<lambda>n. the (map_of (zip required_columns r) n))) required_columns
       = map (\<lambda>x. (x - m) / s) r"
    by (simp only: map_map [symmetric])
  then show "map (\<lambda>n. (the (map_of (zip required_columns r) n) - m) / s) required_columns
       = map (\<lambda>x. (x - m) / s) r"
    by (simp add: comp_def)
qed

lemma example_tensor:
  assumes "\<forall>r \<in> set rs. length r = 7"
  shows "[map (\<lambda>r. map (\<lambda>n. (the (map_of (zip (columns \<lparr>columns = required_columns, rows = rs\<rparr>) r) n) - m) / s)
                 (map name (features example_config))) (rows \<lparr>columns = required_columns, rows = rs\<rparr>)]
       = [map (map (\<lambda>x. (x - m) / s)) rs]"
  using canonical_tensor [OF assms] by (simp add: example_names)

lemma predict_batch_loaded:
  assumes m: "model self = Some net" and cfg: "feature_config self = Some cfg"
    and cols: "distinct (columns df)" "set (map name (features cfg)) \<subseteq> set (columns df)"
    and wf: "wf_frame df"
    and ne: "features cfg \<noteq> []"
    and sx: "scaler_X self = Some sc" "sc_mean sc = [m]" "sc_scale sc = [s]"
    and sy: "scaler_y self = Some sy" "sc_mean sy = [my]" "sc_scale sy = [sd]"
    and out: "\<forall>i \<in> set (map int [0..<length (rows df) - 11]).
         net [map (\<lambda>r. map (\<lambda>n. (the (map_of (zip (columns df) r) n) - m) / s)
                       (map name (features cfg))) (take 12 (drop (nat i) (rows df)))]
           = Inr [[yf i]]
         \<and> drought_categories cfg (drought_level (yf i * sd + my)) = Some (cf i)"
  shows "predict_batch self clock df =
     (map (\<lambda>i. \<lparr>regcdi_value = yf i * sd + my,
                 drought_category = label (cf i),
                 severity_level = drought_level (yf i * sd + my),
                 confidence_score = calculate_confidence (yf i * sd + my),
                 prediction_date = clock i,
                 model_version = ''stat-LSTM-v1.0'',
                 window_start = Some i,
                 window_end = Some (i + 11)\<rparr>)
          (map int [0..<length (rows df) - 11]), self)"
proof -
  let ?ws = "map int [0..<length (rows df) - 11]"
  let ?g = "\<lambda>i. \<lparr>regcdi_value = yf i * sd + my,
                 drought_category = label (cf i),
                 severity_level = drought_level (yf i * sd + my),
                 confidence_score = calculate_confidence (yf i * sd + my),
                 prediction_date = clock i,
                 model_version = ''stat-LSTM-v1.0'',
                 window_start = None,
                 window_end = None\<rparr>"
  have "\<forall>i \<in> set ?ws. window_outcome self clock df i = Inr (?g i)"
  proof
    fix i assume i: "i \<in> set ?ws"
    then have b: "0 \<le> i" "i + 12 \<le> int (length (rows df))"
      using window_index_bounds [of i "length (rows df)"] by simp_all
    from out i have o: "net [map (\<lambda>r. map (\<lambda>n. (the (map_of (zip (columns df) r) n) - m) / s)
                       (map name (features cfg))) (take 12 (drop (nat i) (rows df)))]
           = Inr [[yf i]]"
      and c: "drought_categories cfg (drought_level (yf i * sd + my)) = Some (cf i)"
      by blast+
    show "window_outcome self clock df i = Inr (?g i)"
      using window_outcome_loaded [OF m cfg cols wf ne sx sy b o c] .
  qed
  then have "concat (map (window_results self clock df) ?ws)
       = map (\<lambda>i. (?g i)\<lparr>window_start := Some i, window_end := Some (i + 11)\<rparr>) ?ws"
    by (rule concat_window_results)
  then show ?thesis
    by (simp add: predict_batch_eq)
qed

lemma example_model_window:
  assumes "k \<noteq> 0"
  shows "example_model
     [map (\<lambda>r. map (\<lambda>n. (the (map_of (zip required_columns r) n) - 2) / 4) required_columns)
          (replicate k example_row)] = Inr [[2]]"
proof -
  have l: "\<forall>r \<in> set (replicate k example_row). length r = 7"
    by (simp add: length_example_row)
  show ?thesis
    unfolding canonical_tensor [OF l] using assms
    by (simp add: example_model_def example_row_def)
qed

lemma example_batch_windows:
  "\<forall>i \<in> set (map int [0..<length (rows (example_frame N)) - 11]).
      example_model
        [map (\<lambda>r. map (\<lambda>n. (the (map_of (zip (columns (example_frame N)) r) n) - 2) / 4)
                  (map name (features example_config)))
             (take 12 (drop (nat i) (rows (example_frame N))))] = Inr [[2]]
      \<and> drought_categories example_config (drought_level (2 * 2 + 1))
          = Some \<lparr>label = ''No Drought''\<rparr>"
proof
  fix i assume "i \<in> set (map int [0..<length (rows (example_frame N)) - 11])"
  then have "0 \<le> i \<and> i + 12 \<le> int (length (rows (example_frame N)))"
    by (rule window_index_bounds)
  then have "nat i < N"
    by (simp add: example_frame_fields) linarith
  then have k: "min 12 (N - nat i) \<noteq> 0"
    by simp
  have lv: "drought_level (2 * 2 + 1) = ''no_drought''"
    by (simp add: drought_level_def)
  have cat: "drought_categories example_config (drought_level (2 * 2 + 1))
               = Some \<lparr>label = ''No Drought''\<rparr>"
    unfolding lv by (simp add: example_config_def spec_categories_simps)
  have "example_model
        [map (\<lambda>r. map (\<lambda>n. (the (map_of (zip required_columns r) n) - 2) / 4) required_columns)
             (replicate (min 12 (N - nat i)) example_row)] = Inr [[2]]"
    using example_model_window [OF k] .
  then have "example_model
        [map (\<lambda>r. map (\<lambda>n. (the (map_of (zip (columns (example_frame N)) r) n) - 2) / 4)
                  (map name (features example_config)))
             (take 12 (drop (nat i) (rows (example_frame N))))] = Inr [[2]]"
    by (simp add: example_frame_fields example_names)
  with cat show "example_model
        [map (\<lambda>r. map (\<lambda>n. (the (map_of (zip (columns (example_frame N)) r) n) - 2) / 4)
                  (map name (features example_config)))
             (take 12 (drop (nat i) (rows (example_frame N))))] = Inr [[2]]
      \<and> drought_categories example_config (drought_level (2 * 2 + 1))
          = Some \<lparr>label = ''No Drought''\<rparr>"
    by blast
qed

section \<open>Window length: the amended claim\<close>

text \<open>
  Claim C5, as amended. \<^verbatim>\<open>predict\<close> does not check the window length: with the
  artifacts loaded, a table of any positive number of rows is scaled and passed to the
  network, and \<^verbatim>\<open>predict\<close> raises what the network raises or returns the
  classified answer. The length is checked by the callers: the manual endpoint answers
  a request whose data is not 12 entries long with an HTTP error whatever the service,
  so without a prediction, and the batch predictor calls \<^verbatim>\<open>predict\<close> on windows
  of exactly 12 rows.
\<close>

theorem window_length_guarded_by_callers:
  assumes m: "model self = Some net" and cfg: "feature_config self = Some cfg"
    and cols: "distinct (columns df)" "set (map name (features cfg)) \<subseteq> set (columns df)"
    and wf: "wf_frame df"
    and ne: "rows df \<noteq> []" "features cfg \<noteq> []"
    and sx: "scaler_X self = Some sc" "sc_mean sc = [m]" "sc_scale sc = [s]"
    and sy: "scaler_y self = Some sy" "sc_mean sy = [my]" "sc_scale sy = [sd]"
  shows "(\<forall>e. net [map (\<lambda>r. map (\<lambda>n. (the (map_of (zip (columns df) r) n) - m) / s)
                          (map name (features cfg))) (rows df)] = Inl e
            \<longrightarrow> predict self now df = (Inl e, self))
       \<and> (\<forall>y c. net [map (\<lambda>r. map (\<lambda>n. (the (map_of (zip (columns df) r) n) - m) / s)
                            (map name (features cfg))) (rows df)] = Inr [[y]]
              \<and> drought_categories cfg (drought_level (y * sd + my)) = Some c
            \<longrightarrow> predict self now df =
                  (Inr \<lparr>regcdi_value = y * sd + my,
                        drought_category = label c,
                        severity_level = drought_level (y * sd + my),
                        confidence_score = calculate_confidence (y * sd + my),
                        prediction_date = now,
                        model_version = ''stat-LSTM-v1.0'',
                        window_start = None,
                        window_end = None\<rparr>, self))
       \<and> (length (data req) \<noteq> 12 \<longrightarrow>
            (\<exists>status d. \<forall>svc save t.
               predict_manual svc save t req = (Inl (HTTPException status d), svc)))
       \<and> fst (predict_batch self clock tbl) =
            concat (map (window_results self clock tbl) (py_range (int (length (rows tbl)) - 11)))
       \<and> (\<forall>i \<in> set (py_range (int (length (rows tbl)) - 11)).
             length (rows (iloc tbl i (i + 12))) = 12)"
proof -
  let ?X = "[map (\<lambda>r. map (\<lambda>n. (the (map_of (zip (columns df) r) n) - m) / s)
                          (map name (features cfg))) (rows df)]"
  have pre: "preprocess_data self df = Inr ?X"
    using preprocess_data_ok [OF cfg cols wf ne sx] .
  have 1: "\<forall>e. net ?X = Inl e \<longrightarrow> predict self now df = (Inl e, self)"
    using predict_model_raises [OF m pre] by blast
  have 2: "\<forall>y c. net ?X = Inr [[y]]
              \<and> drought_categories cfg (drought_level (y * sd + my)) = Some c
            \<longrightarrow> predict self now df =
                  (Inr \<lparr>regcdi_value = y * sd + my,
                        drought_category = label c,
                        severity_level = drought_level (y * sd + my),
                        confidence_score = calculate_confidence (y * sd + my),
                        prediction_date = now,
                        model_version = ''stat-LSTM-v1.0'',
                        window_start = None,
                        window_end = None\<rparr>, self)"
    using predict_ok [OF m pre _ sy cfg] by blast
  have 3: "length (data req) \<noteq> 12 \<longrightarrow>
            (\<exists>status d. \<forall>svc save t.
               predict_manual svc save t req = (Inl (HTTPException status d), svc))"
    using predict_manual_wrong_length [of req] by blast
  have 4: "fst (predict_batch self clock tbl) =
            concat (map (window_results self clock tbl) (py_range (int (length (rows tbl)) - 11)))"
    by (simp only: predict_batch_eq py_range_windows fst_conv)
  have 5: "\<forall>i \<in> set (py_range (int (length (rows tbl)) - 11)).
             length (rows (iloc tbl i (i + 12))) = 12"
  proof
    fix i assume "i \<in> set (py_range (int (length (rows tbl)) - 11))"
    then have "i \<in> set (map int [0..<length (rows tbl) - 11])"
      by (simp only: py_range_windows)
    then have "0 \<le> i \<and> i + 12 \<le> int (length (rows tbl))" by (rule window_index_bounds)
    then show "length (rows (iloc tbl i (i + 12))) = 12"
      using iloc_window(2) [of i tbl] by blast
  qed
  from 1 2 3 4 5 show ?thesis by blast
qed

text \<open>
  A table of 13 rows predicted, a table of 2 rows refused by the network only, a
  request of 11 months, and the second window of a table of 13 rows.
\<close>

theorem window_length_guarded_by_callers_witness:
  "predict example_service ''2025-01-15T10:30:00'' (example_frame 13) =
     (Inr \<lparr>regcdi_value = 5, drought_category = ''No Drought'', severity_level = ''no_drought'',
           confidence_score = 1, prediction_date = ''2025-01-15T10:30:00'',
           model_version = ''stat-LSTM-v1.0'', window_start = None, window_end = None\<rparr>,
      example_service)
   \<and> predict picky_service ''2025-01-15T10:30:00''
        \<lparr>columns = required_columns, rows = [bad_row, example_row]\<rparr>
       = (Inl (ModelFailure ''invalid input''), picky_service)
   \<and> (\<exists>status d. predict_manual example_service None ''2025-01-15T10:30:00''
          \<lparr>data = replicate 11 example_month, location = None\<rparr>
        = (Inl (HTTPException status d), example_service))
   \<and> length (rows (iloc (example_frame 13) 1 (1 + 12))) = 12"
proof -
  let ?req = "\<lparr>data = replicate 11 example_month, location = None\<rparr>"
  let ?two = "\<lparr>columns = required_columns, rows = [bad_row, example_row]\<rparr>"
  have l13: "\<forall>r \<in> set (replicate 13 example_row). length r = 7"
    by (simp add: length_example_row)
  have l2: "\<forall>r \<in> set [bad_row, example_row]. length r = 7"
    by (simp add: length_example_row bad_row_def)
  note h13 = canonical_frame_hyps [OF l13, folded example_frame_def]
  note h2 = canonical_frame_hyps [OF l2]
  have ne13: "rows (example_frame 13) \<noteq> []" by (simp add: example_frame_fields)
  have ne2: "rows ?two \<noteq> []" by simp
  note t13 = window_length_guarded_by_callers [OF example_service_fields(1,4) h13 ne13
      features_example_config example_service_fields(2) scaler_fields
      example_service_fields(3) scaler_fields,
      of "''2025-01-15T10:30:00''" ?req example_clock "example_frame 13"]
  note t2 = window_length_guarded_by_callers [OF picky_service_fields(1,4) h2 ne2
      features_example_config picky_service_fields(2) scaler_fields
      picky_service_fields(3) scaler_fields,
      of "''2025-01-15T10:30:00''" ?req example_clock "example_frame 13"]
  have x13: "example_model
       [map (\<lambda>r. map (\<lambda>n. (the (map_of (zip (columns (example_frame 13)) r) n) - 2) / 4)
                 (map name (features example_config))) (rows (example_frame 13))] = Inr [[2]]"
    unfolding example_frame_def example_tensor [OF l13]
    by (simp add: example_model_def example_row_def)
  have lv: "drought_level (2 * 2 + 1) = ''no_drought''" "drought_level 5 = ''no_drought''"
    by (simp_all add: drought_level_def)
  have cat: "drought_categories example_config (drought_level (2 * 2 + 1))
               = Some \<lparr>label = ''No Drought''\<rparr>"
    unfolding lv by (simp add: example_config_def spec_categories_simps)
  have "predict example_service ''2025-01-15T10:30:00'' (example_frame 13) =
      (Inr \<lparr>regcdi_value = 2 * 2 + 1,
            drought_category = label \<lparr>label = ''No Drought''\<rparr>,
            severity_level = drought_level (2 * 2 + 1),
            confidence_score = calculate_confidence (2 * 2 + 1),
            prediction_date = ''2025-01-15T10:30:00'',
            model_version = ''stat-LSTM-v1.0'',
            window_start = None,
            window_end = None\<rparr>, example_service)"
    using t13 x13 cat by blast
  then have a: "predict example_service ''2025-01-15T10:30:00'' (example_frame 13) =
     (Inr \<lparr>regcdi_value = 5, drought_category = ''No Drought'', severity_level = ''no_drought'',
           confidence_score = 1, prediction_date = ''2025-01-15T10:30:00'',
           model_version = ''stat-LSTM-v1.0'', window_start = None, window_end = None\<rparr>,
      example_service)"
    by (simp add: lv calculate_confidence_eq)
  have x2: "picky_model
       [map (\<lambda>r. map (\<lambda>n. (the (map_of (zip (columns ?two) r) n) - 2) / 4)
                 (map name (features example_config))) (rows ?two)]
       = Inl (ModelFailure ''invalid input'')"
    unfolding example_tensor [OF l2]
    by (simp add: picky_model_def bad_row_def)
  have b: "predict picky_service ''2025-01-15T10:30:00'' ?two
       = (Inl (ModelFailure ''invalid input''), picky_service)"
    using t2 x2 by blast
  have h1: "length (data ?req) \<noteq> 12" by simp
  have c: "\<exists>status d. predict_manual example_service None ''2025-01-15T10:30:00'' ?req
        = (Inl (HTTPException status d), example_service)"
    using t13 h1 by blast
  have h5: "1 \<in> set (py_range (int (length (rows (example_frame 13))) - 11))"
    by (simp add: py_range_def example_frame_fields)
  have d: "length (rows (iloc (example_frame 13) 1 (1 + 12))) = 12"
    using t13 h5 by blast
  from a b c d show ?thesis by blast
qed

section \<open>Schema projection\<close>

text \<open>
  Claim C8. A table that has the configured feature columns, among others and in any
  order, is projected to those columns in the configured order: the selection
  \<^verbatim>\<open>df[feature_names]\<close> yields them, and \<^verbatim>\<open>preprocess_data\<close> returns exactly
  these values, scaled. A table that lacks a configured column makes
  \<^verbatim>\<open>preprocess_data\<close> and \<^verbatim>\<open>predict\<close> fail with the error that lists the
  missing names (the code's \<^verbatim>\<open>KeyError\<close>), and the upload handler fails with the set
  of the required columns that are missing.
\<close>

theorem schema_projection:
  assumes cfg: "feature_config self = Some cfg"
  shows "(distinct (columns df) \<and> wf_frame df
            \<and> set (map name (features cfg)) \<subseteq> set (columns df) \<longrightarrow>
          getitem_columns df (map name (features cfg)) =
            Inr \<lparr>columns = map name (features cfg),
                 rows = map (\<lambda>r. map (\<lambda>n. the (map_of (zip (columns df) r) n))
                                   (map name (features cfg))) (rows df)\<rparr>)
       \<and> (distinct (columns df) \<and> wf_frame df
            \<and> set (map name (features cfg)) \<subseteq> set (columns df)
            \<and> rows df \<noteq> [] \<and> features cfg \<noteq> []
            \<and> scaler_X self = Some sc \<and> sc_mean sc = [m] \<and> sc_scale sc = [s] \<longrightarrow>
          preprocess_data self df =
            Inr [map (\<lambda>r. map (\<lambda>n. (the (map_of (zip (columns df) r) n) - m) / s)
                         (map name (features cfg))) (rows df)])
       \<and> (\<not> set (map name (features cfg)) \<subseteq> set (columns df) \<longrightarrow>
          preprocess_data self df =
            Inl (KeyError (filter (\<lambda>n. n \<notin> set (columns df)) (map name (features cfg))))
          \<and> set (filter (\<lambda>n. n \<notin> set (columns df)) (map name (features cfg)))
              = set (map name (features cfg)) - set (columns df)
          \<and> filter (\<lambda>n. n \<notin> set (columns df)) (map name (features cfg)) \<noteq> [])
       \<and> (\<not> set (map name (features cfg)) \<subseteq> set (columns df) \<and> model self = Some net \<longrightarrow>
          predict self now df =
            (Inl (KeyError (filter (\<lambda>n. n \<notin> set (columns df)) (map name (features cfg)))), self))
       \<and> (\<not> set required_columns \<subseteq> set (columns df) \<longrightarrow>
          upload_data self save clock df =
            (Inl (HTTPException 500 (StrOf (HTTPException 400
               (MissingColumns (set required_columns - set (columns df)))))), self))"
proof -
  let ?names = "map name (features cfg)"
  let ?missing = "filter (\<lambda>n. n \<notin> set (columns df)) ?names"
  have a: "distinct (columns df) \<and> wf_frame df \<and> set ?names \<subseteq> set (columns df) \<longrightarrow>
          getitem_columns df ?names =
            Inr \<lparr>columns = ?names,
                 rows = map (\<lambda>r. map (\<lambda>n. the (map_of (zip (columns df) r) n)) ?names) (rows df)\<rparr>"
    using getitem_columns_ok [of df ?names] by blast
  have a': "distinct (columns df) \<and> wf_frame df \<and> set ?names \<subseteq> set (columns df)
            \<and> rows df \<noteq> [] \<and> features cfg \<noteq> []
            \<and> scaler_X self = Some sc \<and> sc_mean sc = [m] \<and> sc_scale sc = [s] \<longrightarrow>
          preprocess_data self df =
            Inr [map (\<lambda>r. map (\<lambda>n. (the (map_of (zip (columns df) r) n) - m) / s) ?names) (rows df)]"
    using preprocess_data_ok [OF cfg, of df sc m s] by blast
  have pre: "\<not> set ?names \<subseteq> set (columns df) \<Longrightarrow> preprocess_data self df = Inl (KeyError ?missing)"
    using getitem_columns_missing [of ?names df] by (simp add: preprocess_data_def cfg)
  have b: "\<not> set ?names \<subseteq> set (columns df) \<longrightarrow>
          preprocess_data self df = Inl (KeyError ?missing)
          \<and> set ?missing = set ?names - set (columns df)
          \<and> ?missing \<noteq> []"
  proof
    assume m: "\<not> set ?names \<subseteq> set (columns df)"
    have 2: "set ?missing = set ?names - set (columns df)"
      by auto
    have 3: "?missing \<noteq> []"
      using m by (auto simp: filter_empty_conv)
    from pre [OF m] 2 3 show "preprocess_data self df = Inl (KeyError ?missing)
          \<and> set ?missing = set ?names - set (columns df)
          \<and> ?missing \<noteq> []"
      by blast
  qed
  have b': "\<not> set ?names \<subseteq> set (columns df) \<and> model self = Some net \<longrightarrow>
          predict self now df = (Inl (KeyError ?missing), self)"
  proof
    assume h: "\<not> set ?names \<subseteq> set (columns df) \<and> model self = Some net"
    then have "preprocess_data self df = Inl (KeyError ?missing)" using pre by blast
    with h show "predict self now df = (Inl (KeyError ?missing), self)"
      by (simp add: predict_def)
  qed
  have c: "\<not> set required_columns \<subseteq> set (columns df) \<longrightarrow>
          upload_data self save clock df =
            (Inl (HTTPException 500 (StrOf (HTTPException 400
               (MissingColumns (set required_columns - set (columns df)))))), self)"
  proof
    assume m: "\<not> set required_columns \<subseteq> set (columns df)"
    then have "set required_columns - set (columns df) \<noteq> {}"
      by auto
    then show "upload_data self save clock df =
            (Inl (HTTPException 500 (StrOf (HTTPException 400
               (MissingColumns (set required_columns - set (columns df)))))), self)"
      by (simp add: upload_data_def except_500_def Let_def)
  qed
  from a a' b b' c show ?thesis by blast
qed

text \<open>The reordered table with an extra column, and the table without \<^verbatim>\<open>ndvi\<close>.\<close>

theorem schema_projection_witness:
  "getitem_columns example_shuffled (map name (features example_config)) =
     Inr \<lparr>columns = required_columns, rows = [[1, 2, 3, 4, 5, 6, 7]]\<rparr>
   \<and> preprocess_data example_service example_shuffled =
       Inr [[[- 1 / 4, 0, 1 / 4, 1 / 2, 3 / 4, 1, 5 / 4]]]
   \<and> preprocess_data example_service example_missing = Inl (KeyError [''ndvi''])
   \<and> predict example_service ''2025-01-15T10:30:00'' example_missing =
       (Inl (KeyError [''ndvi'']), example_service)
   \<and> upload_data example_service None example_clock example_missing =
       (Inl (HTTPException 500 (StrOf (HTTPException 400 (MissingColumns {''ndvi''})))),
        example_service)"
proof -
  note t1 = schema_projection [OF example_service_fields(4),
      of example_shuffled "\<lparr>sc_mean = [2], sc_scale = [4]\<rparr>" 2 4 example_model
         "''2025-01-15T10:30:00''" None example_clock]
  note t2 = schema_projection [OF example_service_fields(4),
      of example_missing "\<lparr>sc_mean = [2], sc_scale = [4]\<rparr>" 2 4 example_model
         "''2025-01-15T10:30:00''" None example_clock]
  have h1: "distinct (columns example_shuffled) \<and> wf_frame example_shuffled
      \<and> set (map name (features example_config)) \<subseteq> set (columns example_shuffled)"
    by (simp add: example_names required_columns_def example_shuffled_def wf_frame_def)
  have h1': "rows example_shuffled \<noteq> [] \<and> features example_config \<noteq> []
      \<and> scaler_X example_service = Some \<lparr>sc_mean = [2], sc_scale = [4]\<rparr>
      \<and> sc_mean \<lparr>sc_mean = [2], sc_scale = [4]\<rparr> = [2]
      \<and> sc_scale \<lparr>sc_mean = [2], sc_scale = [4]\<rparr> = [4]"
    by (simp add: example_shuffled_def features_example_config example_service_fields)
  have h2: "\<not> set (map name (features example_config)) \<subseteq> set (columns example_missing)"
    by (simp add: example_names required_columns_def example_missing_def)
  have h3: "\<not> set required_columns \<subseteq> set (columns example_missing)"
    by (simp add: required_columns_def example_missing_def)
  have a: "getitem_columns example_shuffled (map name (features example_config)) =
     Inr \<lparr>columns = required_columns, rows = [[1, 2, 3, 4, 5, 6, 7]]\<rparr>"
    using t1 h1 by (simp add: example_names) (simp add: required_columns_def example_shuffled_def)
  have "preprocess_data example_service example_shuffled =
      Inr [map (\<lambda>r. map (\<lambda>n. (the (map_of (zip (columns example_shuffled) r) n) - 2) / 4)
                   (map name (features example_config))) (rows example_shuffled)]"
    using t1 h1 h1' by blast
  then have a': "preprocess_data example_service example_shuffled =
       Inr [[[- 1 / 4, 0, 1 / 4, 1 / 2, 3 / 4, 1, 5 / 4]]]"
    by (simp add: example_names) (simp add: required_columns_def example_shuffled_def)
  have f: "filter (\<lambda>n. n \<notin> set (columns example_missing)) (map name (features example_config))
             = [''ndvi'']"
    by (simp add: example_names) (simp add: required_columns_def example_missing_def)
  have b: "preprocess_data example_service example_missing = Inl (KeyError [''ndvi''])"
    using t2 h2 unfolding f by blast
  have b': "predict example_service ''2025-01-15T10:30:00'' example_missing =
       (Inl (KeyError [''ndvi'']), example_service)"
    using t2 h2 example_service_fields(1) unfolding f by blast
  have s: "set required_columns - set (columns example_missing) = {''ndvi''}"
    by (auto simp: required_columns_def example_missing_def)
  have c: "upload_data example_service None example_clock example_missing =
       (Inl (HTTPException 500 (StrOf (HTTPException 400 (MissingColumns {''ndvi''})))),
        example_service)"
    using t2 h3 unfolding s by blast
  from a a' b b' c show ?thesis by blast
qed

section \<open>Range of the feature values\<close>

text \<open>
  Claim C10. The pipeline does not validate the range of the feature values. With
  the artifacts loaded and under no condition on the values of \<^verbatim>\<open>ndvi\<close> or
  \<^verbatim>\<open>soil_moisture\<close>, \<^verbatim>\<open>predict\<close> returns the classified answer of the network
  for every well formed table; \<^verbatim>\<open>predict_batch\<close> returns one such result for every
  window, none skipped, whenever the network answers on every window; and the upload
  handler returns these batch predictions for every table that has the required
  columns. Only the request model of the manual endpoint rejects an \<^verbatim>\<open>ndvi\<close> outside
  [0, 1] or a \<^verbatim>\<open>soil_moisture\<close> outside [0, 100].
\<close>

theorem no_range_validation_in_pipeline:
  "(model self = Some net \<and> feature_config self = Some cfg \<and> distinct (columns df)
      \<and> set (map name (features cfg)) \<subseteq> set (columns df) \<and> wf_frame df
      \<and> rows df \<noteq> [] \<and> features cfg \<noteq> []
      \<and> scaler_X self = Some sc \<and> sc_mean sc = [m] \<and> sc_scale sc = [s]
      \<and> net [map (\<lambda>r. map (\<lambda>n. (the (map_of (zip (columns df) r) n) - m) / s)
                       (map name (features cfg))) (rows df)] = Inr [[y]]
      \<and> scaler_y self = Some sy \<and> sc_mean sy = [my] \<and> sc_scale sy = [sd]
      \<and> drought_categories cfg (drought_level (y * sd + my)) = Some c \<longrightarrow>
    predict self now df =
      (Inr \<lparr>regcdi_value = y * sd + my,
            drought_category = label c,
            severity_level = drought_level (y * sd + my),
            confidence_score = calculate_confidence (y * sd + my),
            prediction_date = now,
            model_version = ''stat-LSTM-v1.0'',
            window_start = None,
            window_end = None\<rparr>, self))
   \<and> (model self = Some net \<and> feature_config self = Some cfg \<and> distinct (columns df)
      \<and> set (map name (features cfg)) \<subseteq> set (columns df) \<and> wf_frame df
      \<and> features cfg \<noteq> []
      \<and> scaler_X self = Some sc \<and> sc_mean sc = [m] \<and> sc_scale sc = [s]
      \<and> scaler_y self = Some sy \<and> sc_mean sy = [my] \<and> sc_scale sy = [sd]
      \<and> (\<forall>i \<in> set (map int [0..<length (rows df) - 11]).
            net [map (\<lambda>r. map (\<lambda>n. (the (map_of (zip (columns df) r) n) - m) / s)
                          (map name (features cfg))) (take 12 (drop (nat i) (rows df)))]
              = Inr [[yf i]]
            \<and> drought_categories cfg (drought_level (yf i * sd + my)) = Some (cf i)) \<longrightarrow>
    predict_batch self clock df =
      (map (\<lambda>i. \<lparr>regcdi_value = yf i * sd + my,
                  drought_category = label (cf i),
                  severity_level = drought_level (yf i * sd + my),
                  confidence_score = calculate_confidence (yf i * sd + my),
                  prediction_date = clock i,
                  model_version = ''stat-LSTM-v1.0'',
                  window_start = Some i,
                  window_end = Some (i + 11)\<rparr>)
           (map int [0..<length (rows df) - 11]), self))
   \<and> (set required_columns \<subseteq> set (columns df) \<longrightarrow>
        upload_data self None clock df =
          (Inr \<lparr>message = ''Data processed successfully'',
                total_predictions = int (length (fst (predict_batch self clock df))),
                predictions = fst (predict_batch self clock df)\<rparr>, self))
   \<and> (mf \<in> set (data req)
        \<and> \<not> (0 \<le> ndvi mf \<and> ndvi mf \<le> 1 \<and> 0 \<le> soil_moisture mf \<and> soil_moisture mf \<le> 100)
        \<longrightarrow> validate_manual_prediction_request req = Inl ValidationError)"
proof -
  have a: "model self = Some net \<and> feature_config self = Some cfg \<and> distinct (columns df)
      \<and> set (map name (features cfg)) \<subseteq> set (columns df) \<and> wf_frame df
      \<and> rows df \<noteq> [] \<and> features cfg \<noteq> []
      \<and> scaler_X self = Some sc \<and> sc_mean sc = [m] \<and> sc_scale sc = [s]
      \<and> net [map (\<lambda>r. map (\<lambda>n. (the (map_of (zip (columns df) r) n) - m) / s)
                       (map name (features cfg))) (rows df)] = Inr [[y]]
      \<and> scaler_y self = Some sy \<and> sc_mean sy = [my] \<and> sc_scale sy = [sd]
      \<and> drought_categories cfg (drought_level (y * sd + my)) = Some c \<longrightarrow>
    predict self now df =
      (Inr \<lparr>regcdi_value = y * sd + my,
            drought_category = label c,
            severity_level = drought_level (y * sd + my),
            confidence_score = calculate_confidence (y * sd + my),
            prediction_date = now,
            model_version = ''stat-LSTM-v1.0'',
            window_start = None,
            window_end = None\<rparr>, self)"
    using predict_loaded [of self net cfg df sc m s sy my sd y c now] by blast
  have b0: "model self = Some net \<and> feature_config self = Some cfg \<and> distinct (columns df)
      \<and> set (map name (features cfg)) \<subseteq> set (columns df) \<and> wf_frame df
      \<and> features cfg \<noteq> []
      \<and> scaler_X self = Some sc \<and> sc_mean sc = [m] \<and> sc_scale sc = [s]
      \<and> scaler_y self = Some sy \<and> sc_mean sy = [my] \<and> sc_scale sy = [sd]
      \<and> (\<forall>i \<in> set (map int [0..<length (rows df) - 11]).
            net [map (\<lambda>r. map (\<lambda>n. (the (map_of (zip (columns df) r) n) - m) / s)
                          (map name (features cfg))) (take 12 (drop (nat i) (rows df)))]
              = Inr [[yf i]]
            \<and> drought_categories cfg (drought_level (yf i * sd + my)) = Some (cf i)) \<longrightarrow>
    predict_batch self clock df =
      (map (\<lambda>i. \<lparr>regcdi_value = yf i * sd + my,
                  drought_category = label (cf i),
                  severity_level = drought_level (yf i * sd + my),
                  confidence_score = calculate_confidence (yf i * sd + my),
                  prediction_date = clock i,
                  model_version = ''stat-LSTM-v1.0'',
                  window_start = Some i,
                  window_end = Some (i + 11)\<rparr>)
           (map int [0..<length (rows df) - 11]), self)"
    using predict_batch_loaded [of self net cfg df sc m s sy my sd yf cf clock] by blast
  have b: "set required_columns \<subseteq> set (columns df) \<longrightarrow>
        upload_data self None clock df =
          (Inr \<lparr>message = ''Data processed successfully'',
                total_predictions = int (length (fst (predict_batch self clock df))),
                predictions = fst (predict_batch self clock df)\<rparr>, self)"
    using upload_data_ok [of df self clock] by blast
  have c: "mf \<in> set (data req)
        \<and> \<not> (0 \<le> ndvi mf \<and> ndvi mf \<le> 1 \<and> 0 \<le> soil_moisture mf \<and> soil_moisture mf \<le> 100)
        \<longrightarrow> validate_manual_prediction_request req = Inl ValidationError"
    using validate_out_of_range [of mf req] by blast
  from a b0 b c show ?thesis by blast
qed

text \<open>
  Months with \<^verbatim>\<open>ndvi = 7.5\<close> and \<^verbatim>\<open>soil_moisture = -3\<close>: rejected as a manual
  request, predicted as a window, and predicted in both windows of an uploaded table
  of 13 rows.
\<close>

theorem no_range_validation_in_pipeline_witness:
  "rows (example_frame 13) = replicate 13 [10, 30, 20, -1, 0, 7.5, -3]
   \<and> \<not> (0 \<le> ndvi example_month \<and> ndvi example_month \<le> 1
        \<and> 0 \<le> soil_moisture example_month \<and> soil_moisture example_month \<le> 100)
   \<and> validate_manual_prediction_request \<lparr>data = replicate 12 example_month, location = None\<rparr>
       = Inl ValidationError
   \<and> predict example_service ''2025-01-15T10:30:00'' (example_frame 12) =
       (Inr \<lparr>regcdi_value = 5, drought_category = ''No Drought'', severity_level = ''no_drought'',
             confidence_score = 1, prediction_date = ''2025-01-15T10:30:00'',
             model_version = ''stat-LSTM-v1.0'', window_start = None, window_end = None\<rparr>,
        example_service)
   \<and> predict_batch example_service example_clock (example_frame 13) =
       ([\<lparr>regcdi_value = 5, drought_category = ''No Drought'', severity_level = ''no_drought'',
          confidence_score = 1, prediction_date = ''2025-01-15T10:30:00'',
          model_version = ''stat-LSTM-v1.0'', window_start = Some 0, window_end = Some 11\<rparr>,
         \<lparr>regcdi_value = 5, drought_category = ''No Drought'', severity_level = ''no_drought'',
          confidence_score = 1, prediction_date = ''2025-01-15T10:30:00'',
          model_version = ''stat-LSTM-v1.0'', window_start = Some 1, window_end = Some 12\<rparr>],
        example_service)
   \<and> upload_data example_service None example_clock (example_frame 13) =
       (Inr \<lparr>message = ''Data processed successfully'',
             total_predictions = 2,
             predictions =
               [\<lparr>regcdi_value = 5, drought_category = ''No Drought'', severity_level = ''no_drought'',
                 confidence_score = 1, prediction_date = ''2025-01-15T10:30:00'',
                 model_version = ''stat-LSTM-v1.0'', window_start = Some 0, window_end = Some 11\<rparr>,
                \<lparr>regcdi_value = 5, drought_category = ''No Drought'', severity_level = ''no_drought'',
                 confidence_score = 1, prediction_date = ''2025-01-15T10:30:00'',
                 model_version = ''stat-LSTM-v1.0'', window_start = Some 1, window_end = Some 12\<rparr>]\<rparr>,
        example_service)"
proof -
  let ?req = "\<lparr>data = replicate 12 example_month, location = None\<rparr>"
  note t12 = no_range_validation_in_pipeline [where self = example_service and net = example_model
      and cfg = example_config and df = "example_frame 12"
      and sc = "\<lparr>sc_mean = [2], sc_scale = [4]\<rparr>" and m = 2 and s = 4 and y = 2
      and sy = "\<lparr>sc_mean = [1], sc_scale = [2]\<rparr>" and my = 1 and sd = 2
      and c = "\<lparr>label = ''No Drought''\<rparr>" and now = "''2025-01-15T10:30:00''"
      and yf = "\<lambda>i. 2" and cf = "\<lambda>i. \<lparr>label = ''No Drought''\<rparr>"
      and clock = example_clock and mf = example_month and req = ?req]
  note t13 = no_range_validation_in_pipeline [where self = example_service and net = example_model
      and cfg = example_config and df = "example_frame 13"
      and sc = "\<lparr>sc_mean = [2], sc_scale = [4]\<rparr>" and m = 2 and s = 4 and y = 2
      and sy = "\<lparr>sc_mean = [1], sc_scale = [2]\<rparr>" and my = 1 and sd = 2
      and c = "\<lparr>label = ''No Drought''\<rparr>" and now = "''2025-01-15T10:30:00''"
      and yf = "\<lambda>i. 2" and cf = "\<lambda>i. \<lparr>label = ''No Drought''\<rparr>"
      and clock = example_clock and mf = example_month and req = ?req]
  have v: "rows (example_frame 13) = replicate 13 [10, 30, 20, -1, 0, 7.5, -3]"
    by (simp add: example_frame_fields example_row_def)
  have r: "\<not> (0 \<le> ndvi example_month \<and> ndvi example_month \<le> 1
        \<and> 0 \<le> soil_moisture example_month \<and> soil_moisture example_month \<le> 100)"
    by (simp add: example_month_def)
  have mem: "example_month \<in> set (data ?req)"
    by simp
  have val: "validate_manual_prediction_request ?req = Inl ValidationError"
    using t12 r mem by blast
  have lv: "drought_level (2 * 2 + 1) = ''no_drought''" "drought_level 5 = ''no_drought''"
    by (simp_all add: drought_level_def)
  have cat: "drought_categories example_config (drought_level (2 * 2 + 1))
               = Some \<lparr>label = ''No Drought''\<rparr>"
    unfolding lv by (simp add: example_config_def spec_categories_simps)
  have out: "example_model
       [map (\<lambda>r. map (\<lambda>n. (the (map_of (zip (columns (example_frame 12)) r) n) - 2) / 4)
                 (map name (features example_config))) (rows (example_frame 12))] = Inr [[2]]"
    using example_model_window [of 12] by (simp add: example_frame_fields example_names)
  have loaded: "model example_service = Some example_model
      \<and> feature_config example_service = Some example_config
      \<and> features example_config \<noteq> []
      \<and> scaler_X example_service = Some \<lparr>sc_mean = [2], sc_scale = [4]\<rparr>
      \<and> sc_mean \<lparr>sc_mean = [2], sc_scale = [4]\<rparr> = [2]
      \<and> sc_scale \<lparr>sc_mean = [2], sc_scale = [4]\<rparr> = [4]
      \<and> scaler_y example_service = Some \<lparr>sc_mean = [1], sc_scale = [2]\<rparr>
      \<and> sc_mean \<lparr>sc_mean = [1], sc_scale = [2]\<rparr> = [1]
      \<and> sc_scale \<lparr>sc_mean = [1], sc_scale = [2]\<rparr> = [2]"
    by (simp add: example_service_fields features_example_config)
  have frame: "distinct (columns (example_frame N))
      \<and> set (map name (features example_config)) \<subseteq> set (columns (example_frame N))
      \<and> wf_frame (example_frame N)" for N
    by (simp add: example_frame_fields example_names distinct_required_columns wf_example_frame)
  have ne: "rows (example_frame 12) \<noteq> []"
    by (simp add: example_frame_fields)
  have "predict example_service ''2025-01-15T10:30:00'' (example_frame 12) =
      (Inr \<lparr>regcdi_value = 2 * 2 + 1,
            drought_category = label \<lparr>label = ''No Drought''\<rparr>,
            severity_level = drought_level (2 * 2 + 1),
            confidence_score = calculate_confidence (2 * 2 + 1),
            prediction_date = ''2025-01-15T10:30:00'',
            model_version = ''stat-LSTM-v1.0'',
            window_start = None,
            window_end = None\<rparr>, example_service)"
    using t12 loaded frame [of 12] ne out cat by blast
  then have p: "predict example_service ''2025-01-15T10:30:00'' (example_frame 12) =
       (Inr \<lparr>regcdi_value = 5, drought_category = ''No Drought'', severity_level = ''no_drought'',
             confidence_score = 1, prediction_date = ''2025-01-15T10:30:00'',
             model_version = ''stat-LSTM-v1.0'', window_start = None, window_end = None\<rparr>,
        example_service)"
    by (simp add: lv calculate_confidence_eq)
  have u13: "map int [0..<length (rows (example_frame 13)) - 11] = [0, 1]"
    by (simp add: example_frame_fields upt_rec)
  have "predict_batch example_service example_clock (example_frame 13) =
      (map (\<lambda>i. \<lparr>regcdi_value = 2 * 2 + 1,
                  drought_category = label \<lparr>label = ''No Drought''\<rparr>,
                  severity_level = drought_level (2 * 2 + 1),
                  confidence_score = calculate_confidence (2 * 2 + 1),
                  prediction_date = example_clock i,
                  model_version = ''stat-LSTM-v1.0'',
                  window_start = Some i,
                  window_end = Some (i + 11)\<rparr>)
           (map int [0..<length (rows (example_frame 13)) - 11]), example_service)"
    using t13 loaded frame [of 13] example_batch_windows [of 13] by blast
  then have b: "predict_batch example_service example_clock (example_frame 13) =
       ([\<lparr>regcdi_value = 5, drought_category = ''No Drought'', severity_level = ''no_drought'',
          confidence_score = 1, prediction_date = ''2025-01-15T10:30:00'',
          model_version = ''stat-LSTM-v1.0'', window_start = Some 0, window_end = Some 11\<rparr>,
         \<lparr>regcdi_value = 5, drought_category = ''No Drought'', severity_level = ''no_drought'',
          confidence_score = 1, prediction_date = ''2025-01-15T10:30:00'',
          model_version = ''stat-LSTM-v1.0'', window_start = Some 1, window_end = Some 12\<rparr>],
        example_service)"
    unfolding u13 by (simp add: lv calculate_confidence_eq example_clock_def)
  have rc: "set required_columns \<subseteq> set (columns (example_frame 13))"
    by (simp add: example_frame_fields)
  have "upload_data example_service None example_clock (example_frame 13) =
       (Inr \<lparr>message = ''Data processed successfully'',
             total_predictions = int (length (fst (predict_batch example_service example_clock
                                                     (example_frame 13)))),
             predictions = fst (predict_batch example_service example_clock (example_frame 13))\<rparr>,
        example_service)"
    using t13 rc by blast
  then have u: "upload_data example_service None example_clock (example_frame 13) =
       (Inr \<lparr>message = ''Data processed successfully'',
             total_predictions = 2,
             predictions =
               [\<lparr>regcdi_value = 5, drought_category = ''No Drought'', severity_level = ''no_drought'',
                 confidence_score = 1, prediction_date = ''2025-01-15T10:30:00'',
                 model_version = ''stat-LSTM-v1.0'', window_start = Some 0, window_end = Some 11\<rparr>,
                \<lparr>regcdi_value = 5, drought_category = ''No Drought'', severity_level = ''no_drought'',
                 confidence_score = 1, prediction_date = ''2025-01-15T10:30:00'',
                 model_version = ''stat-LSTM-v1.0'', window_start = Some 1, window_end = Some 12\<rparr>]\<rparr>,
        example_service)"
    unfolding b by simp
  from v r val p b u show ?thesis by blast
qed

end
